theory Spec2Isabelle
  imports Complex_Main
begin

section \<open>Tensors, errors and library layers\<close>

text \<open>
  A torch tensor of floats is a rectangular nested list of reals, outermost axis first:
  the arithmetic of the source (\<open>exp\<close>, \<open>reciprocal\<close>, sums) is read over the reals, so
  rounding, overflow and NaN of 32-bit floats are outside this development.
  A nested list with an empty axis has forgotten the sizes of the axes after it; where the
  source reads such a size, the functions below take it from the first row.
\<close>

type_synonym vec = "real list"
type_synonym mat = "vec list"
type_synonym tensor3 = "mat list"
type_synonym tensor4 = "tensor3 list"

datatype error =
    AssertionError string
  | AttributeError
  | IndexError
  | NameError
  | NotImplementedError
  | OSError
  | RuntimeError
  | ValueError

definition size1 :: "'a list list \<Rightarrow> nat" where
  "size1 t = (case t of [] \<Rightarrow> 0 | r # _ \<Rightarrow> length r)"

definition size2 :: "'a list list list \<Rightarrow> nat" where
  "size2 t = (case t of [] \<Rightarrow> 0 | r # _ \<Rightarrow> size1 r)"

text \<open>Python's slice \<open>xs[a:b]\<close> for \<open>0 \<le> a \<le> b\<close>.\<close>

definition slice :: "nat \<Rightarrow> nat \<Rightarrow> 'a list \<Rightarrow> 'a list" where
  "slice a b xs = take (b - a) (drop a xs)"

text \<open>
  \<open>nn.Linear\<close>: \<open>y = W x + b\<close> on the last axis. The learned weights are data of the
  layer; nothing below depends on their values.
\<close>

record Linear =
  weight :: mat
  bias :: vec

definition linear :: "Linear \<Rightarrow> vec \<Rightarrow> vec" where
  "linear l x =
     map (\<lambda>(row, b). sum_list (map (\<lambda>(w, v). w * v) (zip row x)) + b)
         (zip (weight l) (bias l))"

definition sigmoid :: "real \<Rightarrow> real" where
  "sigmoid x = 1 / (1 + exp (- x))"

text \<open>\<open>F.softmax(_, dim=-1)\<close> on one row.\<close>

definition softmax :: "vec \<Rightarrow> vec" where
  "softmax xs = map (\<lambda>x. exp x / sum_list (map exp xs)) xs"

text \<open>
  \<open>nn.LSTMCell\<close> on one batch row, after the torch documentation: the four gates
  \<open>i, f, g, o\<close> are consecutive chunks of \<open>W_ih x + b_ih + W_hh h + b_hh\<close>,
  \<open>c' = f * c + i * g\<close> and \<open>h' = o * tanh c'\<close>.
\<close>

record LSTMCell =
  weight_ih :: mat
  weight_hh :: mat
  bias_ih :: vec
  bias_hh :: vec

definition lstm_cell :: "LSTMCell \<Rightarrow> vec \<Rightarrow> vec \<times> vec \<Rightarrow> vec \<times> vec" where
  "lstm_cell l x hc =
     (case hc of (h, c) \<Rightarrow>
        let n = length h;
            gates = map (\<lambda>(a, b). a + b)
                      (zip (linear \<lparr>weight = weight_ih l, bias = bias_ih l\<rparr> x)
                           (linear \<lparr>weight = weight_hh l, bias = bias_hh l\<rparr> h));
            ig = map sigmoid (take n gates);
            fg = map sigmoid (slice n (2 * n) gates);
            gg = map tanh (slice (2 * n) (3 * n) gates);
            og = map sigmoid (slice (3 * n) (4 * n) gates);
            c' = map (\<lambda>((f, c0), (i, g)). f * c0 + i * g) (zip (zip fg c) (zip ig gg));
            h' = map (\<lambda>(ov, c1). ov * tanh c1) (zip og c')
        in (h', c'))"

section \<open>The attention module (model/tts.py, class Attention)\<close>

text \<open>
  The object's attributes. \<open>M\<close>, \<open>rnn_cell\<close>, \<open>W_g\<close> and \<open>ksi_hat_cum\<close> are set by
  \<open>__init__\<close> (\<open>ksi_hat_cum\<close> to \<open>None\<close>); \<open>beta_hat\<close>, \<open>alpha_hat\<close>, \<open>u\<close>, \<open>u_R\<close>
  and \<open>u_L\<close> come into being at the first call of \<open>attention\<close> and are \<open>None\<close> before.
\<close>

record Attention =
  M :: nat
  rnn_cell :: LSTMCell
  W_g :: Linear
  ksi_hat_cum :: "mat option"
  beta_hat :: "mat option"
  alpha_hat :: "mat option"
  u :: "vec option"
  u_R :: "vec option"
  u_L :: "vec option"

text \<open>
  What \<open>TTS\<close> hands over as \<open>memory\<close>: the encoder's output tensor (\<open>forward\<close> unpacks
  it), or the encoder's whole return value, a tuple of the output and the final
  \<open>(h, c)\<close> (\<open>sample\<close> does not unpack it).
\<close>

datatype memory_arg =
    Tensor tensor3
  | Tuple "tensor3 \<times> (tensor3 \<times> tensor3)"

text \<open>
  \<open>torch.sum(alpha.unsqueeze(-1) * torch.reciprocal(1 + torch.exp((ksi.unsqueeze(-1) - z)
  / beta.unsqueeze(-1))), dim=1)\<close>: \<open>alpha\<close>, \<open>ksi\<close>, \<open>beta\<close> are \<open>[B, M]\<close>, \<open>z\<close> is
  \<open>[T]\<close>, the result is \<open>[B, T]\<close>. The source writes this expression three times
  (lines 38, 41 and 49).
\<close>

definition mixture_sum :: "mat \<Rightarrow> mat \<Rightarrow> mat \<Rightarrow> vec \<Rightarrow> mat" where
  "mixture_sum alpha ksi beta z =
     map (\<lambda>(a, k, b).
            map (\<lambda>zu. sum_list (map (\<lambda>(ak, kk, bk). ak * (1 / (1 + exp ((kk - zu) / bk))))
                                     (zip a (zip k b))))
                z)
         (zip alpha (zip ksi beta))"

text \<open>One batch row of \<open>torch.bmm\<close>: a \<open>[1, T]\<close> matrix times a \<open>[T, D]\<close> matrix.\<close>

definition matmul :: "mat \<Rightarrow> mat \<Rightarrow> mat" where
  "matmul a m =
     map (\<lambda>row. map (\<lambda>d. sum_list (map (\<lambda>(w, mrow). w * mrow ! d) (zip row m)))
                     [0..<size1 m])
         a"

text \<open>\<open>torch.bmm\<close> raises when the two batch sizes differ.\<close>

definition bmm :: "tensor3 \<Rightarrow> tensor3 \<Rightarrow> error + tensor3" where
  "bmm a m =
     (if length a \<noteq> length m then Inl RuntimeError
      else Inr (map (\<lambda>(ab, mb). matmul ab mb) (zip a m)))"

text \<open>The mixture centres of line 20, \<open>torch.exp(phi_hat[:, :self.M])\<close>.\<close>

definition ksi_hat_of :: "nat \<Rightarrow> mat \<Rightarrow> mat" where
  "ksi_hat_of m phi_hat = map (\<lambda>r. map exp (take m r)) phi_hat"

text \<open>
  \<open>Attention.attention\<close>. The block between lines 22 and 29 is a string literal, not
  code: \<open>ksi_hat_cum\<close> is neither read nor written. The result is the returned triple
  and the object with its attributes updated.
\<close>

definition attention ::
  "Attention \<Rightarrow> mat \<Rightarrow> memory_arg \<Rightarrow> error + ((tensor3 \<times> tensor3 \<times> mat) \<times> Attention)" where
  "attention self h_i mem =
     (let phi_hat = map (linear (W_g self)) h_i;
          ksi_hat = ksi_hat_of (M self) phi_hat;
          beta = map (\<lambda>r. map exp (slice (M self) (2 * M self) r)) phi_hat;
          alpha = map (\<lambda>r. softmax (slice (2 * M self) (3 * M self) r)) phi_hat
      in case mem of
           Tuple _ \<Rightarrow> Inl AttributeError
         | Tensor memory \<Rightarrow>
             let us = map real [0..<size1 memory];
                 uR = map (\<lambda>x. x + 1 / 2) us;
                 uL = map (\<lambda>x. x - 1 / 2) us;
                 term1 = mixture_sum alpha ksi_hat beta uR;
                 term2 = mixture_sum alpha ksi_hat beta uL;
                 weights = map (\<lambda>(t1, t2). [map (\<lambda>(p, q). p - q) (zip t1 t2)])
                               (zip term1 term2)
             in (case bmm weights memory of
                   Inl e \<Rightarrow> Inl e
                 | Inr ctx \<Rightarrow>
                     let termination =
                           map (map (\<lambda>s. 1 - s)) (mixture_sum alpha ksi_hat beta uR)
                     in Inr ((ctx, weights, termination),
                             self\<lparr>beta_hat := Some beta, alpha_hat := Some alpha,
                                  u := Some us, u_R := Some uR, u_L := Some uL\<rparr>)))"

text \<open>
  A tensor whose rank is only known at run time: the local \<open>context\<close> of
  \<open>Attention.forward\<close> starts as a \<open>[B, D]\<close> tensor of zeros and is a \<open>[B, 1, D]\<close>
  tensor from the first step on.
\<close>

datatype tensor =
    Rank1 vec
  | Rank2 mat
  | Rank3 tensor3

text \<open>\<open>t.squeeze(1)\<close>: axis 1 is removed when its size is 1.\<close>

definition squeeze1 :: "tensor \<Rightarrow> error + tensor" where
  "squeeze1 t =
     (case t of
        Rank1 v \<Rightarrow> Inl IndexError
      | Rank2 m \<Rightarrow> Inr (if size1 m = 1 then Rank1 (concat m) else Rank2 m)
      | Rank3 t3 \<Rightarrow> Inr (if size1 t3 = 1 then Rank2 (map concat t3) else Rank3 t3))"

text \<open>\<open>torch.cat([a, t], dim=-1)\<close> for a rank-2 \<open>a\<close>: the ranks and batch sizes must agree.\<close>

definition cat_last :: "mat \<Rightarrow> tensor \<Rightarrow> error + mat" where
  "cat_last a t =
     (case t of
        Rank2 b \<Rightarrow>
          if length a = length b then Inr (map (\<lambda>(x, y). x @ y) (zip a b))
          else Inl RuntimeError
      | _ \<Rightarrow> Inl RuntimeError)"

text \<open>\<open>self.rnn_cell(x, (h_i, c_i))\<close> on a batch.\<close>

definition rnn_cell_apply :: "LSTMCell \<Rightarrow> mat \<Rightarrow> mat \<times> mat \<Rightarrow> mat \<times> mat" where
  "rnn_cell_apply l x hc =
     (let r = map (\<lambda>(xb, hb, cb). lstm_cell l xb (hb, cb)) (zip x (zip (fst hc) (snd hc)))
      in (map fst r, map snd r))"

text \<open>The local variables of \<open>Attention.forward\<close> that the loop changes, and the object.\<close>

record forward_locals =
  self_l :: Attention
  context_l :: tensor
  h_l :: mat
  c_l :: mat
  contexts_l :: "tensor3 list"
  weights_l :: "tensor3 list"
  termination_l :: "mat option"

text \<open>The body of the loop of \<open>Attention.forward\<close> (lines 66 to 71) at index \<open>i\<close>.\<close>

definition forward_step ::
  "tensor3 \<Rightarrow> memory_arg \<Rightarrow> nat \<Rightarrow> forward_locals \<Rightarrow> error + forward_locals" where
  "forward_step input_h_c memory i s =
     (case squeeze1 (context_l s) of
        Inl e \<Rightarrow> Inl e
      | Inr sq \<Rightarrow>
          (case cat_last (map (\<lambda>row. row ! i) input_h_c) sq of
             Inl e \<Rightarrow> Inl e
           | Inr x \<Rightarrow>
               (case rnn_cell_apply (rnn_cell (self_l s)) x (h_l s, c_l s) of
                  (h, c) \<Rightarrow>
                    (case attention (self_l s) h memory of
                       Inl e \<Rightarrow> Inl e
                     | Inr ((ctx, wgt, term), self') \<Rightarrow>
                         Inr (s\<lparr>self_l := self', context_l := Rank3 ctx,
                                h_l := h, c_l := c,
                                contexts_l := contexts_l s @ [ctx],
                                weights_l := weights_l s @ [wgt],
                                termination_l := Some term\<rparr>)))))"

fun forward_loop ::
  "tensor3 \<Rightarrow> memory_arg \<Rightarrow> nat list \<Rightarrow> forward_locals \<Rightarrow> error + forward_locals" where
  "forward_loop input_h_c memory [] s = Inr s"
| "forward_loop input_h_c memory (i # rest) s =
     (case forward_step input_h_c memory i s of
        Inl e \<Rightarrow> Inl e
      | Inr s' \<Rightarrow> forward_loop input_h_c memory rest s')"

text \<open>\<open>torch.cat(ts, dim=1)\<close>; an empty list of tensors raises.\<close>

definition cat_dim1 :: "tensor3 list \<Rightarrow> error + tensor3" where
  "cat_dim1 ts =
     (case ts of
        [] \<Rightarrow> Inl RuntimeError
      | t # _ \<Rightarrow> Inr (map (\<lambda>b. concat (map (\<lambda>x. x ! b) ts)) [0..<length t]))"

text \<open>
  \<open>torch.gather(t, 1, idx.unsqueeze(-1))\<close> for a \<open>[B, T]\<close> tensor \<open>t\<close>: row \<open>b\<close> of the
  result is \<open>[t[b][idx[b]]]\<close>. It raises when \<open>idx\<close> has more rows than \<open>t\<close> or an
  index lies outside \<open>[0, T)\<close>.
\<close>

definition gather1 :: "mat \<Rightarrow> int list \<Rightarrow> error + mat" where
  "gather1 t idx =
     (if length t < length idx then Inl RuntimeError
      else if list_ex (\<lambda>(row, j). j < 0 \<or> int (length row) \<le> j) (zip t idx)
      then Inl RuntimeError
      else Inr (map (\<lambda>(row, j). [row ! nat j]) (zip t idx)))"

text \<open>
  The locals of \<open>Attention.forward\<close> when the loop is entered (lines 58 to 63): the
  context and the recurrent state are \<open>[B, D]\<close> tensors of zeros.
\<close>

definition forward_init :: "Attention \<Rightarrow> tensor3 \<Rightarrow> forward_locals" where
  "forward_init self input_h_c =
     (let B = length input_h_c; D = size2 input_h_c;
          zeros = replicate B (replicate D 0)
      in \<lparr>self_l = self, context_l = Rank2 zeros, h_l = zeros, c_l = zeros,
          contexts_l = [], weights_l = [], termination_l = None\<rparr>)"

text \<open>
  \<open>Attention.forward\<close>. The list \<open>contexts\<close> is concatenated at line 73, and line 77
  returns the local \<open>context\<close>.
\<close>

definition Attention_forward ::
  "Attention \<Rightarrow> tensor3 \<Rightarrow> memory_arg \<Rightarrow> int list
     \<Rightarrow> error + ((tensor \<times> tensor3 \<times> mat) \<times> Attention)" where
  "Attention_forward self input_h_c memory input_lengths =
     (let T = size1 input_h_c
      in case forward_loop input_h_c memory [0..<T] (forward_init self input_h_c) of
           Inl e \<Rightarrow> Inl e
         | Inr s \<Rightarrow>
             (case cat_dim1 (contexts_l s) of
                Inl e \<Rightarrow> Inl e
              | Inr contexts \<Rightarrow>
                  (case cat_dim1 (weights_l s) of
                     Inl e \<Rightarrow> Inl e
                   | Inr alignment \<Rightarrow>
                       (case termination_l s of
                          None \<Rightarrow> Inl NameError
                        | Some term \<Rightarrow>
                            (case gather1 term (map (\<lambda>n. n - 1) input_lengths) of
                               Inl e \<Rightarrow> Inl e
                             | Inr termination \<Rightarrow>
                                 Inr ((context_l s, alignment, termination), self_l s))))))"

section \<open>The sequence model (model/tts.py, class TTS)\<close>

text \<open>The fields of the configuration object \<open>hp\<close> that the two source files read.\<close>

record hparams =
  model_gmm :: nat
  model_hidden :: nat
  data_name :: string
  data_path :: string
  data_extension :: string
  audio_sr :: nat
  audio_duration :: real

text \<open>
  \<open>DelayedRNN\<close> (model/rnn.py) is not among the sources at hand: a layer is any function
  from \<open>(h_t, h_f, h_c)\<close> to a new triple, and it may raise.
\<close>

type_synonym layer = "tensor4 \<times> tensor4 \<times> tensor \<Rightarrow> error + (tensor4 \<times> tensor4 \<times> tensor)"

text \<open>
  The return value of \<open>nn.Sequential(nn.Embedding, nn.LSTM)\<close> is that of \<open>nn.LSTM\<close>: the
  pair of the output sequence and the final \<open>(h, c)\<close>.
\<close>

type_synonym text_encoder = "int list list \<Rightarrow> tensor3 \<times> (tensor3 \<times> tensor3)"

record TTS =
  hp :: hparams
  tierN :: int
  W_t_0 :: Linear
  W_f_0 :: Linear
  W_c_0 :: Linear
  layers :: "layer list"
  K :: nat
  W_theta :: Linear
  TextEncoder :: text_encoder
  attention_module :: Attention

text \<open>
  What the random initialisation of the sub-modules produces when a \<open>TTS\<close> is built;
  \<open>new_DelayedRNN i\<close> is the \<open>i\<close>-th layer of the stack.
\<close>

record fresh_modules =
  new_W_t_0 :: Linear
  new_W_f_0 :: Linear
  new_W_c_0 :: Linear
  new_DelayedRNN :: "nat \<Rightarrow> layer"
  new_W_theta :: Linear
  new_TextEncoder :: text_encoder
  new_rnn_cell :: LSTMCell
  new_W_g :: Linear

text \<open>\<open>Attention.__init__\<close>.\<close>

definition Attention_init :: "hparams \<Rightarrow> fresh_modules \<Rightarrow> Attention" where
  "Attention_init hparams fresh =
     \<lparr>M = model_gmm hparams, rnn_cell = new_rnn_cell fresh, W_g = new_W_g fresh,
      ksi_hat_cum = None, beta_hat = None, alpha_hat = None,
      u = None, u_R = None, u_L = None\<rparr>"

text \<open>\<open>TTS.__init__(hp, freq, layers, tierN)\<close>; the \<open>assert\<close> is its third statement.\<close>

definition TTS_init ::
  "hparams \<Rightarrow> nat \<Rightarrow> nat \<Rightarrow> int \<Rightarrow> fresh_modules \<Rightarrow> error + TTS" where
  "TTS_init hparams freq n_layers tier fresh =
     (if tier = 1 then
        Inr \<lparr>hp = hparams, tierN = tier,
             W_t_0 = new_W_t_0 fresh, W_f_0 = new_W_f_0 fresh, W_c_0 = new_W_c_0 fresh,
             layers = map (new_DelayedRNN fresh) [0..<n_layers],
             K = model_gmm hparams, W_theta = new_W_theta fresh,
             TextEncoder = new_TextEncoder fresh,
             attention_module = Attention_init hparams fresh\<rparr>
      else Inl (AssertionError ''TTS tier must be 1''))"

text \<open>
  \<open>F.pad(x, [1, -1])\<close> on one row of the last axis: a zero in front, the last entry
  dropped. \<open>F.pad(x, [0, 0, 1, -1])\<close> does the same on the axis before the last.
\<close>

definition pad_time :: "vec \<Rightarrow> vec" where
  "pad_time row = take (length row) (0 # row)"

definition pad_freq :: "mat \<Rightarrow> mat" where
  "pad_freq m = take (length m) (replicate (size1 m) 0 # m)"

text \<open>The transpose of an \<open>[r, c]\<close> matrix, with both sizes given.\<close>

definition transpose2 :: "nat \<Rightarrow> nat \<Rightarrow> 'a list list \<Rightarrow> 'a list list" where
  "transpose2 r c m = map (\<lambda>j. map (\<lambda>i. m ! i ! j) [0..<r]) [0..<c]"

text \<open>\<open>W(x.unsqueeze(-1))\<close> for a \<open>Linear(1, hidden)\<close>.\<close>

definition embed :: "Linear \<Rightarrow> tensor3 \<Rightarrow> tensor4" where
  "embed l x = map (map (map (\<lambda>v. linear l [v]))) x"

text \<open>\<open>self.W_c_0(F.pad(x, [1, -1]).transpose(1, 2))\<close>.\<close>

definition context_query :: "Linear \<Rightarrow> tensor3 \<Rightarrow> tensor3" where
  "context_query l x =
     map (\<lambda>xb. map (linear l) (transpose2 (length xb) (size1 xb) (map pad_time xb))) x"

fun run_layers ::
  "layer list \<Rightarrow> tensor4 \<times> tensor4 \<times> tensor \<Rightarrow> error + (tensor4 \<times> tensor4 \<times> tensor)" where
  "run_layers [] s = Inr s"
| "run_layers (l # ls) s = (case l s of Inl e \<Rightarrow> Inl e | Inr s' \<Rightarrow> run_layers ls s')"

text \<open>
  \<open>TTS.forward\<close> down to line 129: the mixture parameters before the mask, the
  alignment, and the object (its attention module has run).
\<close>

definition TTS_forward_params ::
  "TTS \<Rightarrow> tensor3 \<Rightarrow> int list list \<Rightarrow> int list
     \<Rightarrow> error + ((tensor4 \<times> tensor4 \<times> tensor4 \<times> tensor3) \<times> TTS)" where
  "TTS_forward_params self x text input_lengths =
     (case TextEncoder self text of
        (memory, _) \<Rightarrow>
          let h_t = embed (W_t_0 self) (map (map pad_time) x);
              h_f = embed (W_f_0 self) (map pad_freq x)
          in (case Attention_forward (attention_module self) (context_query (W_c_0 self) x)
                     (Tensor memory) input_lengths of
                Inl e \<Rightarrow> Inl e
              | Inr ((h_c, alignment, termination), att') \<Rightarrow>
                  (case run_layers (layers self) (h_t, h_f, h_c) of
                     Inl e \<Rightarrow> Inl e
                   | Inr (h_t', h_f', h_c') \<Rightarrow>
                       let theta_hat = map (map (map (linear (W_theta self)))) h_f';
                           mu = map (map (map (take (K self)))) theta_hat;
                           std = map (map (map (\<lambda>r. map exp (slice (K self) (2 * K self) r))))
                                     theta_hat;
                           pis = map (map (map (\<lambda>r. softmax (drop (2 * K self) r)))) theta_hat
                       in Inr ((mu, std, pis, alignment),
                               self\<lparr>attention_module := att'\<rparr>))))"

text \<open>
  \<open>t.masked_fill(mask.unsqueeze(1).unsqueeze(3), v)\<close> for a \<open>[B, M, T, K]\<close> tensor and
  a \<open>[B', T]\<close> mask: the mask is broadcast over the axes of size 1, and over the batch
  axis when \<open>B' = 1\<close>; any other \<open>B' \<noteq> B\<close> raises.
\<close>

definition fill_sample :: "tensor3 \<Rightarrow> bool list \<Rightarrow> real \<Rightarrow> tensor3" where
  "fill_sample tb mb v =
     map (\<lambda>tm. map (\<lambda>(tt, m). map (\<lambda>x. if m then v else x) tt) (zip tm mb)) tb"

definition masked_fill :: "tensor4 \<Rightarrow> bool list list \<Rightarrow> real \<Rightarrow> error + tensor4" where
  "masked_fill t msk v =
     (if length msk = length t then Inr (map (\<lambda>(tb, mb). fill_sample tb mb v) (zip t msk))
      else (case msk of
              [mb] \<Rightarrow> Inr (map (\<lambda>tb. fill_sample tb mb v) t)
            | _ \<Rightarrow> Inl RuntimeError))"

text \<open>Lines 132 and 133: \<open>output_lengths.unsqueeze(-1) < idx.unsqueeze(0)\<close>.\<close>

definition length_mask :: "int list \<Rightarrow> nat \<Rightarrow> bool list list" where
  "length_mask output_lengths t =
     (let idx = map int [1..<t + 1] in map (\<lambda>n. map (\<lambda>i. n < i) idx) output_lengths)"

text \<open>\<open>TTS.forward\<close>.\<close>

definition TTS_forward ::
  "TTS \<Rightarrow> tensor3 \<Rightarrow> int list list \<Rightarrow> int list \<Rightarrow> int list
     \<Rightarrow> error + ((tensor4 \<times> tensor4 \<times> tensor4 \<times> tensor3) \<times> TTS)" where
  "TTS_forward self x text input_lengths output_lengths =
     (case TTS_forward_params self x text input_lengths of
        Inl e \<Rightarrow> Inl e
      | Inr ((mu, std, pis, alignment), self') \<Rightarrow>
          let msk = length_mask output_lengths (size2 mu)
          in (case masked_fill mu msk 0 of
                Inl e \<Rightarrow> Inl e
              | Inr mu' \<Rightarrow>
                  (case masked_fill std msk (1 / sqrt (2 * pi)) of
                     Inl e \<Rightarrow> Inl e
                   | Inr std' \<Rightarrow> Inr ((mu', std', pis, alignment), self'))))"

text \<open>
  The local variables of \<open>TTS.sample\<close>. A local that no statement has assigned yet is
  \<open>None\<close>; no statement of \<open>sample\<close> assigns \<open>std\<close>.
\<close>

record sample_locals =
  self_s :: TTS
  x_t :: tensor3
  x_f :: tensor3
  mu_s :: "tensor3 option"
  std_s :: "tensor4 option"
  pi_s :: "tensor4 option"
  termination_s :: "mat option"

text \<open>
  The body of the loop of \<open>TTS.sample\<close> (lines 150 to 167) at index \<open>i\<close>. An index
  beyond the end of an axis raises \<open>IndexError\<close>.
\<close>

definition sample_step ::
  "tensor3 \<Rightarrow> memory_arg \<Rightarrow> int list \<Rightarrow> nat \<Rightarrow> sample_locals \<Rightarrow> error + sample_locals" where
  "sample_step x memory input_lengths i s =
     (let self = self_s s;
          h_t = embed (W_t_0 self) (x_t s);
          h_f = embed (W_f_0 self) (x_f s)
      in (case Attention_forward (attention_module self) (context_query (W_c_0 self) x)
                 memory input_lengths of
            Inl e \<Rightarrow> Inl e
          | Inr ((h_c, alignment, termination), att') \<Rightarrow>
              (case run_layers (layers self) (h_t, h_f, h_c) of
                 Inl e \<Rightarrow> Inl e
               | Inr (h_t', h_f', h_c') \<Rightarrow>
                   let theta_hat = map (map (map (linear (W_theta self)))) h_f';
                       pis = map (map (map (\<lambda>r. softmax (drop (2 * K self) r)))) theta_hat;
                       mu = map (map (map (\<lambda>r.
                              sum_list (map (\<lambda>(a, b). a * b)
                                (zip (map sigmoid (take (K self) r))
                                     (softmax (drop (2 * K self) r)))))))
                              theta_hat
                   in if size2 (x_t s) \<le> i + 1 \<or> size2 mu \<le> i then Inl IndexError
                      else if size1 (x_f s) \<le> i + 1 \<or> size1 mu \<le> i then Inl IndexError
                      else Inr (s\<lparr>self_s := self\<lparr>attention_module := att'\<rparr>,
                                  x_t := map (\<lambda>(xb, mb).
                                            map (\<lambda>(xrow, mrow). xrow[i + 1 := mrow ! i])
                                                (zip xb mb))
                                          (zip (x_t s) mu),
                                  x_f := map (\<lambda>(xb, mb). xb[i + 1 := mb ! i])
                                             (zip (x_f s) mu),
                                  mu_s := Some mu, pi_s := Some pis,
                                  termination_s := Some termination\<rparr>))))"

fun sample_loop ::
  "tensor3 \<Rightarrow> memory_arg \<Rightarrow> int list \<Rightarrow> nat list \<Rightarrow> sample_locals \<Rightarrow> error + sample_locals"
  where
  "sample_loop x memory input_lengths [] s = Inr s"
| "sample_loop x memory input_lengths (i # rest) s =
     (case sample_step x memory input_lengths i s of
        Inl e \<Rightarrow> Inl e
      | Inr s' \<Rightarrow> sample_loop x memory input_lengths rest s')"

text \<open>
  \<open>TTS.sample\<close>. Line 144 keeps the encoder's whole return value as \<open>memory\<close>; line 169
  reads the locals \<open>mu\<close>, \<open>std\<close>, \<open>pi\<close> and \<open>termination\<close>, and reading an unassigned
  local raises (\<open>UnboundLocalError\<close>, a \<open>NameError\<close>).
\<close>

definition sample ::
  "TTS \<Rightarrow> tensor3 \<Rightarrow> int list list \<Rightarrow> int list
     \<Rightarrow> error + ((tensor3 \<times> tensor4 \<times> tensor4 \<times> mat) \<times> TTS)" where
  "sample self x text input_lengths =
     (let memory = Tuple (TextEncoder self text);
          s0 = \<lparr>self_s = self, x_t = x, x_f = x, mu_s = None, std_s = None, pi_s = None,
                termination_s = None\<rparr>
      in (case sample_loop x memory input_lengths [0..<size2 x] s0 of
            Inl e \<Rightarrow> Inl e
          | Inr s \<Rightarrow>
              (case (mu_s s, std_s s, pi_s s, termination_s s) of
                 (Some mu, Some std, Some pis, Some term) \<Rightarrow>
                   Inr ((mu, std, pis, term), self_s s)
               | _ \<Rightarrow> Inl NameError)))"

section \<open>The data loader (datasets/wavloader.py)\<close>

subsection \<open>Collation\<close>

text \<open>
  \<open>torch.nn.utils.rnn.pad_sequence(seqs, batch_first=True)\<close>: every sequence is
  extended on the right to the longest length of the batch; \<open>z\<close> is the zero entry of
  the trailing shape. An empty batch raises, and so does a sequence whose trailing shape
  differs from that of the first.
\<close>

definition pad_sequence :: "'a \<Rightarrow> 'a list list \<Rightarrow> 'a list list" where
  "pad_sequence z seqs =
     (let max_len = foldr max (map length seqs) 0
      in map (\<lambda>s. s @ replicate (max_len - length s) z) seqs)"

definition pad_tokens :: "int list list \<Rightarrow> error + int list list" where
  "pad_tokens seqs = (if seqs = [] then Inl IndexError else Inr (pad_sequence 0 seqs))"

text \<open>
  \<open>pad_sequence([torch.from_numpy(x.T) for x in xs], batch_first=True).transpose(1, 2)\<close>
  for spectrograms \<open>x\<close> of shape \<open>[frequency, time]\<close>.
\<close>

definition pad_spectrograms :: "mat list \<Rightarrow> error + tensor3" where
  "pad_spectrograms xs =
     (case xs of
        [] \<Rightarrow> Inl IndexError
      | x0 # _ \<Rightarrow>
          if list_ex (\<lambda>x. length x \<noteq> length x0) xs then Inl RuntimeError
          else let seqs = map (\<lambda>x. transpose2 (length x) (size1 x) x) xs;
                   padded = pad_sequence (replicate (length x0) 0) seqs
               in Inr (map (\<lambda>p. transpose2 (length p) (length x0) p) padded))"

text \<open>\<open>TextCollate.__call__\<close>; a batch entry is \<open>(seq, source, target)\<close>.\<close>

definition TextCollate_call ::
  "(int list \<times> mat \<times> mat) list
     \<Rightarrow> error + (int list list \<times> int list \<times> tensor3 \<times> tensor3 \<times> int list)" where
  "TextCollate_call batch =
     (let seq = map (\<lambda>x. fst x) batch;
          text_lengths = map (\<lambda>x. int (length x)) seq
      in (case pad_tokens seq of
            Inl e \<Rightarrow> Inl e
          | Inr seq_padded \<Rightarrow>
              let audio_lengths = map (\<lambda>x. int (size1 (fst (snd x)))) batch
              in (case pad_spectrograms (map (\<lambda>x. fst (snd x)) batch) of
                    Inl e \<Rightarrow> Inl e
                  | Inr source_padded \<Rightarrow>
                      (case pad_spectrograms (map (\<lambda>x. snd (snd x)) batch) of
                         Inl e \<Rightarrow> Inl e
                       | Inr target_padded \<Rightarrow>
                           Inr (seq_padded, text_lengths, source_padded, target_padded,
                                audio_lengths)))))"

text \<open>\<open>AudioCollate.__call__\<close>; a batch entry is \<open>(source, target)\<close>.\<close>

definition AudioCollate_call ::
  "(mat \<times> mat) list \<Rightarrow> error + (tensor3 \<times> tensor3 \<times> int list)" where
  "AudioCollate_call batch =
     (let audio_lengths = map (\<lambda>x. int (size1 (fst x))) batch
      in (case pad_spectrograms (map (\<lambda>x. fst x) batch) of
            Inl e \<Rightarrow> Inl e
          | Inr source_padded \<Rightarrow>
              (case pad_spectrograms (map (\<lambda>x. snd x) batch) of
                 Inl e \<Rightarrow> Inl e
               | Inr target_padded \<Rightarrow> Inr (source_padded, target_padded, audio_lengths))))"

subsection \<open>Datasets\<close>

text \<open>
  What the constructors read from outside the program: the files that \<open>glob.glob\<close>
  finds, the lines of a text file (\<open>None\<close> when it cannot be opened),
  \<open>utils.get_length\<close>, Python's \<open>float\<close> on a string (\<open>None\<close> for \<open>ValueError\<close>), and
  the draws of the generator after \<open>random.seed(123)\<close>: \<open>randbelow c n\<close> is the result
  of the \<open>c\<close>-th call, asked for a number below \<open>n\<close>.
\<close>

record environment =
  glob_glob :: "string \<Rightarrow> string list"
  read_lines :: "string \<Rightarrow> string list option"
  get_length :: "string \<Rightarrow> nat \<Rightarrow> real"
  py_float :: "string \<Rightarrow> real option"
  randbelow :: "nat \<Rightarrow> nat \<Rightarrow> nat"

record args =
  args_tts :: bool
  args_batch_size :: nat
  args_tier :: int

text \<open>\<open>os.path.join\<close> on POSIX: a component that starts with a slash starts afresh.\<close>

definition join2 :: "string \<Rightarrow> string \<Rightarrow> string" where
  "join2 a b =
     (if b \<noteq> [] \<and> hd b = CHR ''/'' then b
      else if a = [] \<or> last a = CHR ''/'' then a @ b
      else a @ ''/'' @ b)"

definition os_path_join :: "string \<Rightarrow> string list \<Rightarrow> string" where
  "os_path_join a ps = foldl join2 a ps"

text \<open>\<open>s.split(c)\<close> for a one-character separator.\<close>

fun split_on :: "char \<Rightarrow> string \<Rightarrow> string list" where
  "split_on c [] = [[]]"
| "split_on c (x # xs) =
     (if x = c then [] # split_on c xs
      else (case split_on c xs of
              [] \<Rightarrow> [[x]]
            | w # ws \<Rightarrow> (x # w) # ws))"

text \<open>
  \<open>random.shuffle\<close>: for \<open>i\<close> from \<open>len(x) - 1\<close> down to 1, a draw \<open>j\<close> below \<open>i + 1\<close>
  and the swap \<open>x[i], x[j] = x[j], x[i]\<close>. The draw is reduced modulo \<open>i + 1\<close>, so that
  every value of the parameter stands for a generator.
\<close>

fun shuffle_from :: "(nat \<Rightarrow> nat \<Rightarrow> nat) \<Rightarrow> nat \<Rightarrow> nat \<Rightarrow> 'a list \<Rightarrow> 'a list" where
  "shuffle_from rb c 0 xs = xs"
| "shuffle_from rb c (Suc i) xs =
     (let j = rb c (Suc (Suc i)) mod Suc (Suc i)
      in shuffle_from rb (Suc c) i (xs[Suc i := xs ! j, j := xs ! Suc i]))"

definition shuffle :: "(nat \<Rightarrow> nat \<Rightarrow> nat) \<Rightarrow> 'a list \<Rightarrow> 'a list" where
  "shuffle rb xs = shuffle_from rb 0 (length xs - 1) xs"

text \<open>
  Lines 55 to 58 and 116 to 119: the first \<open>int(0.95 * len(xs))\<close> entries, or the rest.
  For every length below \<open>2^53\<close> the double product truncates to \<open>19 * len(xs) div 20\<close>.
\<close>

definition split_95 :: "bool \<Rightarrow> 'a list \<Rightarrow> 'a list" where
  "split_95 train xs =
     (let k = (19 * length xs) div 20 in if train then take k xs else drop k xs)"

text \<open>Python's \<open>int\<close> on a float truncates towards zero.\<close>

definition py_int :: "real \<Rightarrow> int" where
  "py_int x = (if 0 \<le> x then \<lfloor>x\<rfloor> else \<lceil>x\<rceil>)"

record AudioOnlyDataset =
  ao_hp :: hparams
  ao_args :: args
  ao_train :: bool
  file_list :: "string list"
  ao_wavlen :: int
  ao_tier :: int

text \<open>
  \<open>AudioOnlyDataset.__init__\<close>. The constructors of \<open>MelGen\<close> and \<open>TierUtil\<close> lie outside
  the two source files and are left out, here and below.
\<close>

definition AudioOnlyDataset_init ::
  "hparams \<Rightarrow> args \<Rightarrow> bool \<Rightarrow> environment \<Rightarrow> AudioOnlyDataset" where
  "AudioOnlyDataset_init hparams a train env =
     (let found = glob_glob env (os_path_join (data_path hparams) [''**'', data_extension hparams]);
          shuffled = shuffle (randbelow env) found
      in \<lparr>ao_hp = hparams, ao_args = a, ao_train = train,
          file_list = split_95 train shuffled,
          ao_wavlen = py_int (real (audio_sr hparams) * audio_duration hparams),
          ao_tier = args_tier a\<rparr>)"

text \<open>The loop over the lines of the KSS transcript (lines 92 to 98).\<close>

fun kss_lines ::
  "hparams \<Rightarrow> environment \<Rightarrow> string list \<Rightarrow> (string \<times> string) list
     \<Rightarrow> error + (string \<times> string) list" where
  "kss_lines hparams env [] dataset = Inr dataset"
| "kss_lines hparams env (line # rest) dataset =
     (case split_on CHR ''|'' line of
        [wav_name, _, _, txt, len, _] \<Rightarrow>
          (let wav_path = os_path_join (data_path hparams) [''kss'', wav_name]
           in case py_float env len of
                None \<Rightarrow> Inl ValueError
              | Some duraton \<Rightarrow>
                  kss_lines hparams env rest
                    (if duraton < audio_duration hparams then dataset @ [(wav_path, txt)]
                     else dataset))
      | _ \<Rightarrow> Inl ValueError)"

text \<open>\<open>xs[::3]\<close>; \<open>xs[1::3]\<close> is \<open>every_third (drop 1 xs)\<close>.\<close>

fun every_third :: "'a list \<Rightarrow> 'a list" where
  "every_third [] = []"
| "every_third (x # xs) = x # every_third (drop 2 xs)"

text \<open>The loop over the Blizzard prompts (lines 104 to 110).\<close>

definition blizzard_lines ::
  "hparams \<Rightarrow> environment \<Rightarrow> string list \<Rightarrow> (string \<times> string) list" where
  "blizzard_lines hparams env lines =
     (let filenames = every_third lines;
          sentences = every_third (drop 1 lines)
      in filter (\<lambda>(wav_path, sentence).
                   get_length env wav_path (audio_sr hparams) < audio_duration hparams)
           (map (\<lambda>(filename, sentence).
                   (os_path_join (data_path hparams) [''wavn'', filename @ ''.wav''], sentence))
                (zip filenames sentences)))"

record AudioTextDataset =
  at_hp :: hparams
  at_args :: args
  at_train :: bool
  dataset :: "(string \<times> string) list"
  at_wavlen :: int
  at_tier :: int

text \<open>The statements after the branch on the dataset kind (lines 114 to 122).\<close>

definition AudioTextDataset_finish ::
  "hparams \<Rightarrow> args \<Rightarrow> bool \<Rightarrow> environment \<Rightarrow> (string \<times> string) list \<Rightarrow> AudioTextDataset"
  where
  "AudioTextDataset_finish hparams a train env ds =
     \<lparr>at_hp = hparams, at_args = a, at_train = train,
      dataset = split_95 train (shuffle (randbelow env) ds),
      at_wavlen = py_int (real (audio_sr hparams) * audio_duration hparams),
      at_tier = args_tier a\<rparr>"

text \<open>\<open>AudioTextDataset.__init__\<close>.\<close>

definition AudioTextDataset_init ::
  "hparams \<Rightarrow> args \<Rightarrow> bool \<Rightarrow> environment \<Rightarrow> error + AudioTextDataset" where
  "AudioTextDataset_init hparams a train env =
     (if data_name hparams = ''KSS'' then
        (case read_lines env (os_path_join (data_path hparams) [''transcript.v.1.3.txt'']) of
           None \<Rightarrow> Inl OSError
         | Some lines \<Rightarrow>
             (case kss_lines hparams env lines [] of
                Inl e \<Rightarrow> Inl e
              | Inr ds \<Rightarrow> Inr (AudioTextDataset_finish hparams a train env ds)))
      else if data_name hparams = ''Blizzard'' then
        (case read_lines env (os_path_join (data_path hparams) [''prompts.gui'']) of
           None \<Rightarrow> Inl OSError
         | Some lines \<Rightarrow>
             Inr (AudioTextDataset_finish hparams a train env
                    (blizzard_lines hparams env lines)))
      else Inl NotImplementedError)"

section \<open>Example instances\<close>

text \<open>
  Layers whose weights and biases are all zero, an output projection with zero weights
  and bias \<open>[5, 0, 0]\<close>, a layer stack that returns its input, and an encoder that maps
  the token \<open>n\<close> to the vector \<open>[n, n + 1]\<close>: the modules of a small model (one mixture
  component, hidden size 2) on which the statements below are run.
\<close>

definition zero_linear :: "nat \<Rightarrow> nat \<Rightarrow> Linear" where
  "zero_linear n_in n_out =
     \<lparr>weight = replicate n_out (replicate n_in 0), bias = replicate n_out 0\<rparr>"

definition zero_lstm :: "nat \<Rightarrow> nat \<Rightarrow> LSTMCell" where
  "zero_lstm n_in n_hidden =
     \<lparr>weight_ih = replicate (4 * n_hidden) (replicate n_in 0),
      weight_hh = replicate (4 * n_hidden) (replicate n_hidden 0),
      bias_ih = replicate (4 * n_hidden) 0,
      bias_hh = replicate (4 * n_hidden) 0\<rparr>"

definition example_hp :: hparams where
  "example_hp =
     \<lparr>model_gmm = 1, model_hidden = 2, data_name = ''KSS'', data_path = ''data'',
      data_extension = ''*.wav'', audio_sr = 22050, audio_duration = 10\<rparr>"

definition example_encoder :: text_encoder where
  "example_encoder text = (map (map (\<lambda>tok. [of_int tok, of_int tok + 1])) text, ([], []))"

definition example_fresh :: fresh_modules where
  "example_fresh =
     \<lparr>new_W_t_0 = zero_linear 1 2, new_W_f_0 = zero_linear 1 2, new_W_c_0 = zero_linear 1 2,
      new_DelayedRNN = (\<lambda>i. Inr),
      new_W_theta = \<lparr>weight = [[0, 0], [0, 0], [0, 0]], bias = [5, 0, 0]\<rparr>,
      new_TextEncoder = example_encoder,
      new_rnn_cell = zero_lstm 4 2, new_W_g = zero_linear 2 3\<rparr>"

section \<open>Formulas of the specification and normal forms\<close>

text \<open>
  One batch row of the thrice-written sum of \<open>attention\<close>, as a function of the row
  \<open>r\<close> of \<open>phi_hat\<close> and of the position \<open>z\<close>, and the row of \<open>term1 - term2\<close>.
\<close>

definition row_mix :: "nat \<Rightarrow> vec \<Rightarrow> real \<Rightarrow> real" where
  "row_mix m r z =
     sum_list (map (\<lambda>(ak, kk, bk). ak * (1 / (1 + exp ((kk - z) / bk))))
                   (zip (softmax (slice (2 * m) (3 * m) r))
                        (zip (map exp (take m r)) (map exp (slice m (2 * m) r)))))"

definition align_row :: "nat \<Rightarrow> nat \<Rightarrow> vec \<Rightarrow> vec" where
  "align_row m t r =
     map (\<lambda>pos. row_mix m r (real pos + 1 / 2) - row_mix m r (real pos - 1 / 2)) [0..<t]"

text \<open>
  The formulas in the words of the specification: the logistic CDF, the three parts of
  the raw projection, and the alignment weight at a memory position.
\<close>

definition spec_CDF :: "real \<Rightarrow> real \<Rightarrow> real \<Rightarrow> real" where
  "spec_CDF z c s = 1 / (1 + exp ((c - z) / s))"

definition spec_center :: "vec \<Rightarrow> nat \<Rightarrow> real" where
  "spec_center raw k = exp (raw ! k)"

definition spec_scale :: "nat \<Rightarrow> vec \<Rightarrow> nat \<Rightarrow> real" where
  "spec_scale n raw k = exp (raw ! (n + k))"

definition spec_mix_weight :: "nat \<Rightarrow> vec \<Rightarrow> nat \<Rightarrow> real" where
  "spec_mix_weight n raw k = exp (raw ! (2 * n + k)) / (\<Sum>j<n. exp (raw ! (2 * n + j)))"

definition spec_alignment_weight :: "nat \<Rightarrow> vec \<Rightarrow> nat \<Rightarrow> real" where
  "spec_alignment_weight n raw pos =
     (\<Sum>k<n. spec_mix_weight n raw k *
        (spec_CDF (real pos + 1 / 2) (spec_center raw k) (spec_scale n raw k)
         - spec_CDF (real pos - 1 / 2) (spec_center raw k) (spec_scale n raw k)))"


definition example_attention :: Attention where
  "example_attention = Attention_init example_hp example_fresh"

definition example_memory :: tensor3 where
  "example_memory = [[[1, 2], [3, 4]]]"

text \<open>
  A query of two output steps for the example module, what one step of \<open>attention\<close>
  returns on it, and the states of the loop of \<open>Attention.forward\<close> that the example
  passes through.
\<close>

definition example_query :: tensor3 where
  "example_query = [[[1, 2], [3, 4]]]"

definition example_weights :: tensor3 where
  "example_weights = [[align_row 1 2 [0, 0, 0]]]"

definition example_context :: tensor3 where
  "example_context = [matmul [align_row 1 2 [0, 0, 0]] [[1, 2], [3, 4]]]"

definition example_termination :: mat where
  "example_termination = [map (\<lambda>pos. 1 - row_mix 1 [0, 0, 0] (real pos + 1 / 2)) [0..<2]]"

definition zero_state :: "forward_locals \<Rightarrow> bool" where
  "zero_state s \<longleftrightarrow>
     M (self_l s) = 1 \<and> W_g (self_l s) = zero_linear 2 3 \<and> rnn_cell (self_l s) = zero_lstm 4 2
     \<and> h_l s = [[0, 0]] \<and> c_l s = [[0, 0]]
     \<and> (context_l s = Rank2 [[0, 0]] \<or> context_l s = Rank3 example_context)"

text \<open>
  The termination formula of the specification at a memory position, and the per-step
  termination output that the specification attributes to a sample: the formula at the
  last memory position, for the hidden state after step \<open>i\<close> of the loop.
\<close>

definition spec_termination_at :: "nat \<Rightarrow> vec \<Rightarrow> nat \<Rightarrow> real" where
  "spec_termination_at n raw pos =
     1 - (\<Sum>k<n. spec_mix_weight n raw k *
            spec_CDF (real pos + 1 / 2) (spec_center raw k) (spec_scale n raw k))"

definition spec_step_termination ::
  "Attention \<Rightarrow> tensor3 \<Rightarrow> tensor3 \<Rightarrow> nat \<Rightarrow> nat \<Rightarrow> real option" where
  "spec_step_termination self input_h_c memory i j =
     (case forward_loop input_h_c (Tensor memory) [0..<Suc i] (forward_init self input_h_c) of
        Inl e \<Rightarrow> None
      | Inr s \<Rightarrow>
          Some (spec_termination_at (M self) (linear (W_g self) (h_l s ! j)) (size1 memory - 1)))"

text \<open>
  The sequence model that \<open>TTS.__init__\<close> builds from the example modules with one
  layer, and a spectrogram of one sample, one frequency bin and two frames.
\<close>

definition example_tts :: TTS where
  "example_tts =
     \<lparr>hp = example_hp, tierN = 1,
      W_t_0 = zero_linear 1 2, W_f_0 = zero_linear 1 2, W_c_0 = zero_linear 1 2,
      layers = [Inr], K = 1,
      W_theta = \<lparr>weight = [[0, 0], [0, 0], [0, 0]], bias = [5, 0, 0]\<rparr>,
      TextEncoder = example_encoder,
      attention_module = example_attention\<rparr>"

definition example_x :: tensor3 where
  "example_x = [[[1, 2]]]"

text \<open>
  The words of the specification for the batch assembler: padding on the right up to a
  length, and trimming a padded output back to a recorded length (a token row on its
  only axis, a spectrogram on its time axis). A batch of two samples follows.
\<close>

definition right_pad :: "nat \<Rightarrow> 'a \<Rightarrow> 'a list \<Rightarrow> 'a list" where
  "right_pad n z xs = xs @ replicate (n - length xs) z"

definition trim_tokens :: "int list \<Rightarrow> int \<Rightarrow> int list" where
  "trim_tokens p n = take (nat n) p"

definition trim_spectrogram :: "mat \<Rightarrow> int \<Rightarrow> mat" where
  "trim_spectrogram p n = map (take (nat n)) p"

definition example_batch :: "(int list \<times> mat \<times> mat) list" where
  "example_batch =
     [([1, 2, 3], [[1, 2], [3, 4]], [[5, 6], [7, 8]]),
      ([4], [[9], [10]], [[11], [12]])]"

text \<open>
  A sample of the KSS transcript together with its duration, as one line of the
  transcript gives them; and an environment with a transcript of two lines (durations
  3.5 and 12), one audio file, and a \<open>get_length\<close> that answers 20 seconds.
\<close>

definition kss_sample :: "hparams \<Rightarrow> environment \<Rightarrow> string \<Rightarrow> ((string \<times> string) \<times> real) option" where
  "kss_sample hparams env line =
     (case split_on CHR ''|'' line of
        [wav_name, _, _, txt, len, _] \<Rightarrow>
          (case py_float env len of
             None \<Rightarrow> None
           | Some d \<Rightarrow> Some ((os_path_join (data_path hparams) [''kss'', wav_name], txt), d))
      | _ \<Rightarrow> None)"

definition example_args :: args where
  "example_args = \<lparr>args_tts = True, args_batch_size = 1, args_tier = 1\<rparr>"

definition example_env :: environment where
  "example_env =
     \<lparr>glob_glob = (\<lambda>pattern. [''a.wav'']),
      read_lines = (\<lambda>path. Some [''a.wav|x|y|hello|3.5|z'', ''b.wav|x|y|long|12.0|z'']),
      get_length = (\<lambda>path sr. 20),
      py_float = (\<lambda>s. if s = ''3.5'' then Some (7 / 2)
                        else if s = ''12.0'' then Some 12 else None),
      randbelow = (\<lambda>c n. 0)\<rparr>"

section \<open>Properties\<close>

subsection \<open>Construction of the sequence model\<close>

text \<open>
  Claim C10. \<open>TTS.__init__\<close> fails with the assertion error \<open>TTS tier must be 1\<close>
  exactly when the tier argument differs from 1, it returns a model exactly when the
  tier is 1, and every model it returns has tier 1.
\<close>

theorem TTS_init_tier_check:
  "(TTS_init hparams freq n_layers tier fresh = Inl (AssertionError ''TTS tier must be 1''))
     = (tier \<noteq> 1)
   \<and> (\<exists>t. TTS_init hparams freq n_layers tier fresh = Inr t) = (tier = 1)
   \<and> (\<forall>t. TTS_init hparams freq n_layers tier fresh = Inr t \<longrightarrow> tierN t = 1)"
  by (auto simp: TTS_init_def)

theorem TTS_init_tier_check_witness:
  "TTS_init example_hp 80 2 2 example_fresh = Inl (AssertionError ''TTS tier must be 1'')
   \<and> (\<exists>t. TTS_init example_hp 80 2 1 example_fresh = Inr t \<and> tierN t = 1)"
  using TTS_init_tier_check [of example_hp 80 2 2 example_fresh]
        TTS_init_tier_check [of example_hp 80 2 1 example_fresh]
  by auto

subsection \<open>One step of the attention module\<close>

lemma zip3_map: "zip (map f xs) (zip (map g xs) (map h xs)) = map (\<lambda>x. (f x, g x, h x)) xs"
  by (induction xs) auto

lemma zip2_map: "zip (map f xs) (map g xs) = map (\<lambda>x. (f x, g x)) xs"
  by (induction xs) auto

lemma mixture_sum_rows:
  "mixture_sum (map (\<lambda>r. softmax (slice (2 * m) (3 * m) r)) phi) (ksi_hat_of m phi)
               (map (\<lambda>r. map exp (slice m (2 * m) r)) phi) z
   = map (\<lambda>r. map (row_mix m r) z) phi"
  by (simp add: mixture_sum_def ksi_hat_of_def zip3_map row_mix_def)

lemma attention_Tensor:
  assumes "length h_i = length memory"
  shows "attention self h_i (Tensor memory) =
     Inr ((map (\<lambda>(w, mb). matmul w mb)
                (zip (map (\<lambda>h. [align_row (M self) (size1 memory) (linear (W_g self) h)]) h_i) memory),
           map (\<lambda>h. [align_row (M self) (size1 memory) (linear (W_g self) h)]) h_i,
           map (\<lambda>h. map (\<lambda>pos. 1 - row_mix (M self) (linear (W_g self) h) (real pos + 1 / 2)) [0..<size1 memory]) h_i),
          self\<lparr>beta_hat := Some (map (\<lambda>r. map exp (slice (M self) (2 * M self) r)) (map (linear (W_g self)) h_i)),
               alpha_hat := Some (map (\<lambda>r. softmax (slice (2 * M self) (3 * M self) r)) (map (linear (W_g self)) h_i)),
               u := Some (map real [0..<size1 memory]),
               u_R := Some (map (\<lambda>x. x + 1 / 2) (map real [0..<size1 memory])),
               u_L := Some (map (\<lambda>x. x - 1 / 2) (map real [0..<size1 memory]))\<rparr>)"
  unfolding attention_def Let_def mixture_sum_rows
  using assms
  by (simp add: bmm_def zip2_map align_row_def o_def)

lemma sum_list_zip3_nth:
  assumes "length as = n" "length ks = n" "length bs = n"
  shows "sum_list (map (\<lambda>(a, k, b). f a k b) (zip as (zip ks bs)))
         = (\<Sum>i<n. f (as ! i) (ks ! i) (bs ! i))"
proof -
  have "sum_list (map (\<lambda>(a, k, b). f a k b) (zip as (zip ks bs)))
        = (\<Sum>i = 0..<n. map (\<lambda>(a, k, b). f a k b) (zip as (zip ks bs)) ! i)"
    using assms by (simp add: sum_list_sum_nth)
  also have "\<dots> = (\<Sum>i = 0..<n. f (as ! i) (ks ! i) (bs ! i))"
    using assms by (intro sum.cong) simp_all
  finally show ?thesis by (simp add: atLeast0LessThan)
qed

lemma sum_list_exp_slice:
  assumes "length r = 3 * m"
  shows "sum_list (map exp (slice (2 * m) (3 * m) r)) = (\<Sum>j<m. exp (r ! (2 * m + j)))"
proof -
  have "sum_list (map exp (slice (2 * m) (3 * m) r))
        = (\<Sum>j = 0..<m. map exp (slice (2 * m) (3 * m) r) ! j)"
    using assms by (simp add: sum_list_sum_nth slice_def)
  also have "\<dots> = (\<Sum>j = 0..<m. exp (r ! (2 * m + j)))"
    using assms by (intro sum.cong) (simp_all add: slice_def)
  finally show ?thesis by (simp add: atLeast0LessThan)
qed

lemma row_mix_spec:
  assumes "length r = 3 * m"
  shows "row_mix m r z
         = (\<Sum>k<m. spec_mix_weight m r k * spec_CDF z (spec_center r k) (spec_scale m r k))"
proof -
  have "row_mix m r z
        = (\<Sum>k<m. softmax (slice (2 * m) (3 * m) r) ! k
                   * (1 / (1 + exp ((map exp (take m r) ! k - z) / map exp (slice m (2 * m) r) ! k))))"
    unfolding row_mix_def using assms
    by (intro sum_list_zip3_nth) (simp_all add: softmax_def slice_def)
  also have "\<dots> = (\<Sum>k<m. spec_mix_weight m r k * spec_CDF z (spec_center r k) (spec_scale m r k))"
    using assms
    by (intro sum.cong refl)
       (simp add: softmax_def spec_mix_weight_def spec_CDF_def spec_center_def spec_scale_def
                  sum_list_exp_slice, simp add: slice_def)
  finally show ?thesis .
qed

lemma align_row_spec:
  assumes "length r = 3 * m"
  shows "align_row m t r = map (spec_alignment_weight m r) [0..<t]"
  by (simp add: align_row_def spec_alignment_weight_def row_mix_spec [OF assms]
                sum_subtractf [symmetric] right_diff_distrib)

lemma length_linear: "length (linear l x) = min (length (weight l)) (length (bias l))"
  by (simp add: linear_def)

lemma sum_list_zip_nth:
  assumes "length ws = length ms"
  shows "sum_list (map (\<lambda>(w, mrow). w * mrow ! d) (zip ws ms))
         = (\<Sum>pos<length ws. ws ! pos * ms ! pos ! (d::nat))"
proof -
  have "sum_list (map (\<lambda>(w, mrow). w * mrow ! d) (zip ws ms))
        = (\<Sum>i = 0..<length ws. map (\<lambda>(w, mrow). w * mrow ! d) (zip ws ms) ! i)"
    using assms by (simp add: sum_list_sum_nth)
  also have "\<dots> = (\<Sum>i = 0..<length ws. ws ! i * ms ! i ! d)"
    using assms by (intro sum.cong) simp_all
  finally show ?thesis by (simp add: atLeast0LessThan)
qed

text \<open>
  Claim C1. When the projection has \<open>3 M\<close> outputs and the memory is a \<open>[B, T, D]\<close>
  tensor with the batch size of the query, \<open>attention\<close> returns, and for every batch
  row its alignment weight at position \<open>pos\<close> is the sum over the components \<open>k\<close> of
  \<open>mix_weight k * (CDF (pos + 1/2) - CDF (pos - 1/2))\<close> with the centre, scale and
  mixture weight of the specification; the context vector is the sum of the memory rows
  weighted by the alignment weights.
\<close>

theorem attention_alignment_formula:
  assumes wg: "length (weight (W_g self)) = 3 * M self" "length (bias (W_g self)) = 3 * M self"
      and len: "length h_i = length memory"
      and b: "b < length memory"
      and rect: "\<forall>m \<in> set memory. length m = size1 memory"
  shows "\<exists>ctx weights termination self'.
           attention self h_i (Tensor memory) = Inr ((ctx, weights, termination), self')
         \<and> weights ! b =
             [map (spec_alignment_weight (M self) (linear (W_g self) (h_i ! b)))
                  [0..<size1 memory]]
         \<and> ctx ! b =
             [map (\<lambda>d. \<Sum>pos<size1 memory. weights ! b ! 0 ! pos * memory ! b ! pos ! d)
                  [0..<size1 (memory ! b)]]"
proof -
  let ?r = "linear (W_g self) (h_i ! b)"
  let ?T = "size1 memory"
  have r: "length ?r = 3 * M self"
    using wg by (simp add: length_linear)
  have mb: "length (memory ! b) = ?T"
    using rect b by simp
  have row: "align_row (M self) ?T ?r = map (spec_alignment_weight (M self) ?r) [0..<?T]"
    by (rule align_row_spec [OF r])
  have w: "map (\<lambda>h. [align_row (M self) ?T (linear (W_g self) h)]) h_i ! b
           = [map (spec_alignment_weight (M self) ?r) [0..<?T]]"
    using b len by (simp add: row)
  have c: "map (\<lambda>(w, mb). matmul w mb)
             (zip (map (\<lambda>h. [align_row (M self) ?T (linear (W_g self) h)]) h_i) memory) ! b
           = [map (\<lambda>d. \<Sum>pos<?T. map (spec_alignment_weight (M self) ?r) [0..<?T] ! pos
                                    * memory ! b ! pos ! d)
                  [0..<size1 (memory ! b)]]"
    using b len mb by (simp add: row matmul_def sum_list_zip_nth)
  show ?thesis
    unfolding attention_Tensor [OF len] using w c by simp
qed


theorem attention_alignment_formula_witness:
  "length (weight (W_g example_attention)) = 3 * M example_attention
   \<and> length (bias (W_g example_attention)) = 3 * M example_attention
   \<and> length [[0, 0 :: real]] = length example_memory
   \<and> 0 < length example_memory
   \<and> list_all (\<lambda>m. length m = size1 example_memory) example_memory
   \<and> (\<exists>ctx weights termination self'.
         attention example_attention [[0, 0]] (Tensor example_memory)
           = Inr ((ctx, weights, termination), self')
       \<and> weights ! 0 = [map (spec_alignment_weight 1 [0, 0, 0]) [0..<2]]
       \<and> ctx ! 0 = [map (\<lambda>d. \<Sum>pos<2. weights ! 0 ! 0 ! pos * example_memory ! 0 ! pos ! d)
                         [0..<2]])"
proof -
  have h1: "length (weight (W_g example_attention)) = 3 * M example_attention"
    by (simp add: example_attention_def Attention_init_def example_fresh_def example_hp_def
                  zero_linear_def)
  have h2: "length (bias (W_g example_attention)) = 3 * M example_attention"
    by (simp add: example_attention_def Attention_init_def example_fresh_def example_hp_def
                  zero_linear_def)
  have h3: "length [[0, 0 :: real]] = length example_memory"
    by (simp add: example_memory_def)
  have h4: "0 < length example_memory"
    by (simp add: example_memory_def)
  have h5: "\<forall>m \<in> set example_memory. length m = size1 example_memory"
    by (simp add: example_memory_def size1_def)
  have s: "size1 example_memory = 2" "size1 (example_memory ! 0) = 2"
    by (simp_all add: example_memory_def size1_def)
  have m: "M example_attention = 1"
    by (simp add: example_attention_def Attention_init_def example_hp_def)
  have r: "linear (W_g example_attention) ([[0, 0]] ! 0) = [0, 0, 0]"
    by (simp add: example_attention_def Attention_init_def example_fresh_def zero_linear_def
                  linear_def numeral_3_eq_3 numeral_2_eq_2)
  have h6: "list_all (\<lambda>m. length m = size1 example_memory) example_memory"
    using h5 by (simp add: list_all_iff)
  show ?thesis
    using attention_alignment_formula [OF h1 h2 h3 h4 h5] h1 h2 h3 h4 h6
    unfolding s m r by blast
qed

lemma softmax_nonneg: "a \<in> set (softmax xs) \<Longrightarrow> 0 \<le> a"
  by (auto simp: softmax_def intro!: divide_nonneg_nonneg sum_list_nonneg)

lemma sum_list_divide_const:
  fixes c :: real
  shows "sum_list (map (\<lambda>x. f x / c) xs) = sum_list (map f xs) / c"
  by (induction xs) (simp_all add: add_divide_distrib)

lemma sum_list_softmax_le: "sum_list (softmax xs) \<le> 1"
  by (simp add: softmax_def sum_list_divide_const)

lemma map_fst_zip_length: "map fst (zip xs ys) = take (length ys) xs"
proof (induction xs arbitrary: ys)
  case Nil
  show ?case by simp
next
  case (Cons x xs)
  show ?case by (cases ys) (simp_all add: Cons.IH)
qed

lemma sum_list_take_le:
  fixes xs :: "real list"
  assumes "\<And>x. x \<in> set xs \<Longrightarrow> 0 \<le> x"
  shows "sum_list (take n xs) \<le> sum_list xs"
proof -
  have "sum_list xs = sum_list (take n xs) + sum_list (drop n xs)"
    by (metis append_take_drop_id sum_list_append)
  moreover have "0 \<le> sum_list (drop n xs)"
    using assms by (intro sum_list_nonneg) (auto dest: in_set_dropD)
  ultimately show ?thesis by simp
qed

lemma logistic_bounds:
  "0 \<le> 1 / (1 + exp (x::real))" "1 / (1 + exp (x::real)) \<le> 1"
proof -
  have "0 < 1 + exp x" by (simp add: add_pos_pos)
  then show "0 \<le> 1 / (1 + exp x)" by simp
  show "1 / (1 + exp x) \<le> 1" by (simp add: add_pos_pos)
qed

lemma logistic_mono:
  assumes "0 < (b::real)" "z \<le> z'"
  shows "1 / (1 + exp ((k - z) / b)) \<le> 1 / (1 + exp ((k - z') / b))"
proof -
  have "(k - z') / b \<le> (k - z) / b"
    using assms by (simp add: divide_right_mono)
  then have "1 + exp ((k - z') / b) \<le> 1 + exp ((k - z) / b)" by simp
  moreover have "0 < 1 + exp ((k - z') / b)" by (simp add: add_pos_pos)
  ultimately show ?thesis by (simp add: frac_le)
qed

lemma row_mix_mono:
  assumes "z \<le> z'"
  shows "row_mix m r z \<le> row_mix m r z'"
  unfolding row_mix_def
proof (rule sum_list_mono)
  fix c
  assume c: "c \<in> set (zip (softmax (slice (2 * m) (3 * m) r))
                         (zip (map exp (take m r)) (map exp (slice m (2 * m) r))))"
  obtain a k b where abc: "c = (a, k, b)" by (cases c) auto
  have a: "0 \<le> a"
    using c abc by (auto dest!: set_zip_leftD intro: softmax_nonneg)
  have "b \<in> set (map exp (slice m (2 * m) r))"
    using c abc by (auto dest!: set_zip_rightD)
  then have b: "0 < b" by auto
  show "(case c of (ak, kk, bk) \<Rightarrow> ak * (1 / (1 + exp ((kk - z) / bk))))
        \<le> (case c of (ak, kk, bk) \<Rightarrow> ak * (1 / (1 + exp ((kk - z') / bk))))"
  proof -
    have "a * (1 / (1 + exp ((k - z) / b))) \<le> a * (1 / (1 + exp ((k - z') / b)))"
      using logistic_mono [OF b assms, of k] a by (rule mult_left_mono)
    then show ?thesis by (simp add: abc)
  qed
qed

lemma row_mix_nonneg: "0 \<le> row_mix m r z"
  unfolding row_mix_def
proof (rule sum_list_nonneg)
  fix x
  assume "x \<in> set (map (\<lambda>(ak, kk, bk). ak * (1 / (1 + exp ((kk - z) / bk))))
                (zip (softmax (slice (2 * m) (3 * m) r))
                     (zip (map exp (take m r)) (map exp (slice m (2 * m) r)))))"
  then obtain a k b where
    c: "(a, k, b) \<in> set (zip (softmax (slice (2 * m) (3 * m) r))
                              (zip (map exp (take m r)) (map exp (slice m (2 * m) r))))"
    and x: "x = a * (1 / (1 + exp ((k - z) / b)))"
    by auto
  have "0 \<le> a" using c by (auto dest!: set_zip_leftD intro: softmax_nonneg)
  then show "0 \<le> x"
    unfolding x using logistic_bounds(1) [of "(k - z) / b"] by (rule mult_nonneg_nonneg)
qed

lemma row_mix_le_1: "row_mix m r z \<le> 1"
proof -
  let ?A = "softmax (slice (2 * m) (3 * m) r)"
  let ?R = "zip (map exp (take m r)) (map exp (slice m (2 * m) r))"
  have "row_mix m r z \<le> sum_list (map fst (zip ?A ?R))"
    unfolding row_mix_def
  proof (rule sum_list_mono)
    fix c
    assume c: "c \<in> set (zip ?A ?R)"
    obtain a k b where abc: "c = (a, k, b)" by (cases c) auto
    have "0 \<le> a" using c abc by (auto dest!: set_zip_leftD intro: softmax_nonneg)
    then have "a * (1 / (1 + exp ((k - z) / b))) \<le> a * 1"
      using logistic_bounds(2) [of "(k - z) / b"] by (rule mult_left_mono [rotated])
    then show "(case c of (ak, kk, bk) \<Rightarrow> ak * (1 / (1 + exp ((kk - z) / bk)))) \<le> fst c"
      by (simp add: abc)
  qed
  also have "\<dots> = sum_list (take (length ?R) ?A)"
    by (rule arg_cong [OF map_fst_zip_length])
  also have "\<dots> \<le> sum_list ?A"
    by (rule sum_list_take_le) (rule softmax_nonneg)
  also have "\<dots> \<le> 1"
    by (rule sum_list_softmax_le)
  finally show ?thesis .
qed

lemma sum_list_telescope:
  fixes f :: "real \<Rightarrow> real"
  shows "sum_list (map (\<lambda>pos. f (real pos + 1 / 2) - f (real pos - 1 / 2)) [0..<t])
         = f (real t - 1 / 2) - f (- 1 / 2)"
  by (induction t) (simp_all add: algebra_simps)

lemma sum_list_align_row:
  "sum_list (align_row m t r) = row_mix m r (real t - 1 / 2) - row_mix m r (- 1 / 2)"
  unfolding align_row_def by (rule sum_list_telescope)

lemma align_row_nonneg:
  assumes "x \<in> set (align_row m t r)"
  shows "0 \<le> x"
proof -
  obtain pos where "x = row_mix m r (real pos + 1 / 2) - row_mix m r (real pos - 1 / 2)"
    using assms by (auto simp: align_row_def)
  moreover have "row_mix m r (real pos - 1 / 2) \<le> row_mix m r (real pos + 1 / 2)"
    by (rule row_mix_mono) simp
  ultimately show ?thesis by simp
qed

lemma align_row_le_1:
  assumes "x \<in> set (align_row m t r)"
  shows "x \<le> 1"
proof -
  obtain pos where "x = row_mix m r (real pos + 1 / 2) - row_mix m r (real pos - 1 / 2)"
    using assms by (auto simp: align_row_def)
  then show ?thesis
    using row_mix_le_1 [of m r "real pos + 1 / 2"] row_mix_nonneg [of m r "real pos - 1 / 2"]
    by simp
qed

lemma sum_list_align_row_le_1: "sum_list (align_row m t r) \<le> 1"
  using row_mix_le_1 [of m r "real t - 1 / 2"] row_mix_nonneg [of m r "- 1 / 2"]
  by (simp add: sum_list_align_row)

lemma attention_Inr_length:
  assumes "attention self h_i (Tensor memory) = Inr res"
  shows "length h_i = length memory"
proof (rule ccontr)
  assume "length h_i \<noteq> length memory"
  then have "attention self h_i (Tensor memory) = Inl RuntimeError"
    by (simp add: attention_def Let_def bmm_def mixture_sum_def ksi_hat_of_def)
  with assms show False by simp
qed

text \<open>
  Claim C4. Whatever the projection produces (the centres and scales are exponentials,
  the mixture weights a softmax) and whatever the memory length, every alignment weight
  vector that \<open>attention\<close> returns has all its entries in \<open>[0, 1]\<close> and a total mass
  between 0 and 1; the mass is not renormalised to 1.
\<close>

theorem attention_weights_in_unit_interval:
  assumes "attention self h_i (Tensor memory) = Inr ((ctx, weights, termination), self')"
      and "wb \<in> set weights" and "w \<in> set wb"
  shows "(\<forall>x \<in> set w. 0 \<le> x \<and> x \<le> 1) \<and> 0 \<le> sum_list w \<and> sum_list w \<le> 1"
proof -
  have len: "length h_i = length memory"
    using assms(1) by (rule attention_Inr_length)
  have "weights = map (\<lambda>h. [align_row (M self) (size1 memory) (linear (W_g self) h)]) h_i"
    using assms(1) unfolding attention_Tensor [OF len] by simp
  then obtain h where "w = align_row (M self) (size1 memory) (linear (W_g self) h)"
    using assms(2,3) by auto
  then show ?thesis
    by (auto intro: align_row_nonneg align_row_le_1 sum_list_align_row_le_1 sum_list_nonneg)
qed

theorem attention_weights_in_unit_interval_witness:
  "\<exists>ctx weights termination self'.
     attention example_attention [[0, 0]] (Tensor example_memory)
       = Inr ((ctx, weights, termination), self')
     \<and> (\<forall>wb \<in> set weights. \<forall>w \<in> set wb.
           (\<forall>x \<in> set w. 0 \<le> x \<and> x \<le> 1) \<and> 0 \<le> sum_list w \<and> sum_list w \<le> 1)
     \<and> length (weights ! 0 ! 0) = 2"
proof -
  have len: "length [[0, 0 :: real]] = length example_memory"
    by (simp add: example_memory_def)
  have s: "size1 example_memory = 2"
    by (simp add: example_memory_def size1_def)
  show ?thesis
    using attention_weights_in_unit_interval
            [of example_attention "[[0, 0]]" example_memory]
    unfolding attention_Tensor [OF len]
    by (simp add: align_row_def s)
qed

subsection \<open>The loop of the attention module, and its run on the example\<close>

lemma sum_list_zero_weights:
  "sum_list (map (\<lambda>(w, v). w * v) (zip (replicate n (0::real)) x)) = 0"
proof (induction n arbitrary: x)
  case 0
  show ?case by simp
next
  case (Suc n)
  show ?case by (cases x) (simp_all add: Suc.IH)
qed

lemma linear_zero: "linear (zero_linear n m) x = replicate m 0"
  by (simp add: linear_def zero_linear_def sum_list_zero_weights map_replicate_const
                zip_replicate map_replicate)

lemma zero_lstm_gates:
  "linear \<lparr>weight = weight_ih (zero_lstm n k), bias = bias_ih (zero_lstm n k)\<rparr> x
     = replicate (4 * k) 0"
  "linear \<lparr>weight = weight_hh (zero_lstm n k), bias = bias_hh (zero_lstm n k)\<rparr> h
     = replicate (4 * k) 0"
  using linear_zero [of n "4 * k" x] linear_zero [of k "4 * k" h]
  by (simp_all add: zero_lstm_def zero_linear_def)

lemma lstm_zero: "lstm_cell (zero_lstm n 2) x ([0, 0], [0, 0]) = ([0, 0], [0, 0])"
  by (simp add: lstm_cell_def zero_lstm_gates Let_def slice_def zip_replicate
                numeral_2_eq_2 sigmoid_def)

lemma rnn_zero:
  "rnn_cell_apply (zero_lstm n 2) [x] ([[0, 0]], [[0, 0]]) = ([[0, 0]], [[0, 0]])"
  by (simp add: rnn_cell_apply_def lstm_zero)

lemma attention_attributes_irrelevant:
  "map_sum id fst
     (attention (self\<lparr>ksi_hat_cum := kc, beta_hat := bh, alpha_hat := ah,
                      u := uu, u_R := ur, u_L := ul\<rparr>) h_i mem)
   = map_sum id fst (attention self h_i mem)"
  by (cases mem) (simp_all add: attention_def Let_def split: sum.splits)

lemma attention_keeps_parameters:
  assumes "attention self h_i mem = Inr (res, self')"
  shows "ksi_hat_cum self' = ksi_hat_cum self \<and> M self' = M self \<and> W_g self' = W_g self
         \<and> rnn_cell self' = rnn_cell self"
  using assms by (cases mem) (auto simp: attention_def Let_def split: sum.splits)

lemma ksi_hat_of_nth:
  assumes "b < length phi_hat" "k < m" "k < length (phi_hat ! b)"
  shows "ksi_hat_of m phi_hat ! b ! k = exp (phi_hat ! b ! k)"
  using assms by (simp add: ksi_hat_of_def)

lemma forward_step_weights:
  assumes "forward_step input_h_c (Tensor memory) i s = Inr s'"
  shows "weights_l s' = weights_l s @
           [map (\<lambda>h. [align_row (M (self_l s)) (size1 memory) (linear (W_g (self_l s)) h)])
                (h_l s')]
         \<and> ksi_hat_cum (self_l s') = ksi_hat_cum (self_l s)
         \<and> M (self_l s') = M (self_l s) \<and> W_g (self_l s') = W_g (self_l s)"
proof -
  from assms obtain h c res self' where
    att: "attention (self_l s) h (Tensor memory) = Inr (res, self')"
    and s': "s' = s\<lparr>self_l := self', context_l := Rank3 (fst res), h_l := h, c_l := c,
                     contexts_l := contexts_l s @ [fst res],
                     weights_l := weights_l s @ [fst (snd res)],
                     termination_l := Some (snd (snd res))\<rparr>"
    by (auto simp: forward_step_def split: sum.splits prod.splits)
  have len: "length h = length memory"
    using att by (rule attention_Inr_length)
  have "fst (snd res)
        = map (\<lambda>h. [align_row (M (self_l s)) (size1 memory) (linear (W_g (self_l s)) h)]) h"
    using att unfolding attention_Tensor [OF len] by auto
  then show ?thesis
    using attention_keeps_parameters [OF att] by (simp add: s')
qed

lemma example_attention_step:
  assumes "M a = 1" "W_g a = zero_linear 2 3"
  shows "\<exists>a'. attention a [[0, 0]] (Tensor example_memory)
               = Inr ((example_context, example_weights, example_termination), a')"
proof -
  have len: "length [[0, 0 :: real]] = length example_memory"
    by (simp add: example_memory_def)
  have s: "size1 example_memory = 2"
    by (simp add: example_memory_def size1_def)
  have r: "linear (zero_linear 2 3) [0, 0] = [0, 0, 0]"
    by (simp add: linear_zero numeral_3_eq_3)
  show ?thesis
    unfolding attention_Tensor [OF len] assms s
    by (simp add: r example_context_def example_weights_def example_termination_def
                  example_memory_def)
qed

lemma example_context_shape: "\<exists>p q. example_context = [[[p, q]]]"
  by (simp add: example_context_def matmul_def size1_def upt_rec [of 0] upt_rec [of 1])

lemma example_cat:
  assumes "context_l s = Rank2 [[0, 0]] \<or> context_l s = Rank3 example_context"
  shows "\<exists>x. (case squeeze1 (context_l s) of Inl e \<Rightarrow> Inl e
                | Inr sq \<Rightarrow> cat_last [row] sq) = Inr [x]"
proof -
  obtain p q where c: "example_context = [[[p, q]]]"
    using example_context_shape by blast
  from assms show ?thesis
  proof
    assume "context_l s = Rank2 [[0, 0]]"
    then show ?thesis by (simp add: squeeze1_def cat_last_def size1_def)
  next
    assume "context_l s = Rank3 example_context"
    then show ?thesis by (simp add: c squeeze1_def cat_last_def size1_def)
  qed
qed

lemma example_forward_step:
  assumes "zero_state s" "length input_h_c = 1"
  shows "\<exists>s'. forward_step input_h_c (Tensor example_memory) i s = Inr s'
              \<and> zero_state s'
              \<and> context_l s' = Rank3 example_context
              \<and> contexts_l s' = contexts_l s @ [example_context]
              \<and> weights_l s' = weights_l s @ [example_weights]
              \<and> termination_l s' = Some example_termination
              \<and> ksi_hat_cum (self_l s') = ksi_hat_cum (self_l s)"
proof -
  obtain row where row: "map (\<lambda>r. r ! i) input_h_c = [row]"
    using assms(2) by (cases input_h_c) auto
  obtain x where x: "(case squeeze1 (context_l s) of Inl e \<Rightarrow> Inl e
                       | Inr sq \<Rightarrow> cat_last [row] sq) = Inr [x]"
    using example_cat [of s row] assms(1) by (auto simp: zero_state_def)
  obtain a' where a': "attention (self_l s) [[0, 0]] (Tensor example_memory)
                         = Inr ((example_context, example_weights, example_termination), a')"
    using example_attention_step [of "self_l s"] assms(1) by (auto simp: zero_state_def)
  have keep: "ksi_hat_cum a' = ksi_hat_cum (self_l s)" "M a' = M (self_l s)"
             "W_g a' = W_g (self_l s)" "rnn_cell a' = rnn_cell (self_l s)"
    using attention_keeps_parameters [OF a'] by simp_all
  have rnn: "rnn_cell_apply (rnn_cell (self_l s)) [x] (h_l s, c_l s) = ([[0, 0]], [[0, 0]])"
    using assms(1) by (simp add: zero_state_def rnn_zero)
  have "forward_step input_h_c (Tensor example_memory) i s
        = Inr (s\<lparr>self_l := a', context_l := Rank3 example_context,
                  h_l := [[0, 0]], c_l := [[0, 0]],
                  contexts_l := contexts_l s @ [example_context],
                  weights_l := weights_l s @ [example_weights],
                  termination_l := Some example_termination\<rparr>)"
    using x unfolding forward_step_def row
    by (auto simp: rnn a' split: sum.splits)
  then show ?thesis
    using assms(1) keep by (simp add: zero_state_def)
qed

lemma example_forward_loop:
  assumes "zero_state s" "length input_h_c = 1" "idx \<noteq> []"
  shows "\<exists>s'. forward_loop input_h_c (Tensor example_memory) idx s = Inr s'
              \<and> zero_state s'
              \<and> context_l s' = Rank3 example_context
              \<and> contexts_l s' = contexts_l s @ replicate (length idx) example_context
              \<and> weights_l s' = weights_l s @ replicate (length idx) example_weights
              \<and> termination_l s' = Some example_termination
              \<and> ksi_hat_cum (self_l s') = ksi_hat_cum (self_l s)"
  using assms
proof (induction idx arbitrary: s)
  case Nil
  then show ?case by simp
next
  case (Cons i rest)
  obtain s1 where s1: "forward_step input_h_c (Tensor example_memory) i s = Inr s1"
    "zero_state s1" "context_l s1 = Rank3 example_context"
    "contexts_l s1 = contexts_l s @ [example_context]"
    "weights_l s1 = weights_l s @ [example_weights]"
    "termination_l s1 = Some example_termination"
    "ksi_hat_cum (self_l s1) = ksi_hat_cum (self_l s)"
    using example_forward_step [OF Cons.prems(1,2), of i] by blast
  show ?case
  proof (cases "rest = []")
    case True
    then show ?thesis using s1 by simp
  next
    case False
    from Cons.IH [OF s1(2) Cons.prems(2) False] s1 show ?thesis
      by (auto simp: replicate_app_Cons_same)
  qed
qed

lemma example_module:
  "M example_attention = 1" "W_g example_attention = zero_linear 2 3"
  "rnn_cell example_attention = zero_lstm 4 2" "ksi_hat_cum example_attention = None"
  by (simp_all add: example_attention_def Attention_init_def example_hp_def example_fresh_def)

lemma example_init: "zero_state (forward_init example_attention example_query)"
  by (simp add: zero_state_def forward_init_def Let_def example_module example_query_def
                size2_def size1_def)

lemma example_init_fields:
  "contexts_l (forward_init a q) = []" "weights_l (forward_init a q) = []"
  "self_l (forward_init a q) = a"
  by (simp_all add: forward_init_def Let_def)

lemma example_Attention_forward:
  assumes "n = 1 \<or> n = 2"
  shows "\<exists>a'. Attention_forward example_attention example_query (Tensor example_memory) [n]
               = Inr ((Rank3 example_context,
                       [example_weights ! 0 @ example_weights ! 0],
                       [[example_termination ! 0 ! nat (n - 1)]]), a')"
proof -
  have T: "size1 example_query = 2"
    by (simp add: example_query_def size1_def)
  have idx: "[0..<2] = [0, 1]"
    by (simp add: upt_rec [of 0] upt_rec [of 1] numeral_2_eq_2)
  obtain s where s: "forward_loop example_query (Tensor example_memory) [0, 1]
                       (forward_init example_attention example_query) = Inr s"
    and f: "context_l s = Rank3 example_context"
           "contexts_l s = [example_context, example_context]"
           "weights_l s = [example_weights, example_weights]"
           "termination_l s = Some example_termination"
    using example_forward_loop [OF example_init, of example_query "[0, 1]"]
    by (auto simp: example_query_def example_init_fields numeral_2_eq_2)
  have c: "cat_dim1 [example_context, example_context]
           = Inr [example_context ! 0 @ example_context ! 0]"
    by (simp add: cat_dim1_def example_context_def)
  have w: "cat_dim1 [example_weights, example_weights]
           = Inr [example_weights ! 0 @ example_weights ! 0]"
    by (simp add: cat_dim1_def example_weights_def)
  have g: "gather1 example_termination [n - 1] = Inr [[example_termination ! 0 ! nat (n - 1)]]"
    using assms by (auto simp: gather1_def example_termination_def)
  show ?thesis
    unfolding Attention_forward_def Let_def T idx s
    by (simp add: f c w g)
qed

text \<open>
  Claim C5. The mixture centres of a step are the exponentials of the first \<open>M\<close> raw
  projection outputs of that step. What \<open>attention\<close> returns does not depend on the
  attributes left by earlier calls (\<open>ksi_hat_cum\<close> among them), \<open>attention\<close> leaves
  \<open>ksi_hat_cum\<close> as it was, and the weights that a step of \<open>Attention.forward\<close>
  appends are a function of this step's hidden state alone: no running sum of centres
  is carried from step to step.
\<close>

theorem attention_centers_per_step:
  "map_sum id fst
     (attention (self\<lparr>ksi_hat_cum := kc, beta_hat := bh, alpha_hat := ah,
                      u := uu, u_R := ur, u_L := ul\<rparr>) h_i mem)
     = map_sum id fst (attention self h_i mem)
   \<and> (\<forall>res self'. attention self h_i mem = Inr (res, self')
         \<longrightarrow> ksi_hat_cum self' = ksi_hat_cum self)
   \<and> (\<forall>b k. b < length h_i \<and> k < M self \<and> k < length (linear (W_g self) (h_i ! b))
         \<longrightarrow> ksi_hat_of (M self) (map (linear (W_g self)) h_i) ! b ! k
             = exp (linear (W_g self) (h_i ! b) ! k))
   \<and> (\<forall>input_h_c memory i s s'. forward_step input_h_c (Tensor memory) i s = Inr s'
         \<longrightarrow> weights_l s' = weights_l s @
               [map (\<lambda>h. [align_row (M (self_l s)) (size1 memory) (linear (W_g (self_l s)) h)])
                    (h_l s')]
             \<and> ksi_hat_cum (self_l s') = ksi_hat_cum (self_l s))"
  using attention_attributes_irrelevant attention_keeps_parameters
        forward_step_weights
  by (auto simp: ksi_hat_of_nth)

theorem attention_centers_per_step_witness:
  "(\<exists>res self'. attention example_attention [[0, 0]] (Tensor example_memory) = Inr (res, self')
       \<and> ksi_hat_cum self' = None)
   \<and> ksi_hat_of (M example_attention) (map (linear (W_g example_attention)) [[0, 0]]) ! 0 ! 0
       = exp (linear (W_g example_attention) ([[0, 0]] ! 0) ! 0)
   \<and> (\<exists>s'. forward_step example_query (Tensor example_memory) 0
               (forward_init example_attention example_query) = Inr s'
          \<and> weights_l s' = [example_weights]
          \<and> ksi_hat_cum (self_l s') = None)"
proof -
  note inst = attention_centers_per_step
               [where self = example_attention and h_i = "[[0, 0]]"
                  and mem = "Tensor example_memory"]
  obtain a' where a': "attention example_attention [[0, 0]] (Tensor example_memory)
                         = Inr ((example_context, example_weights, example_termination), a')"
    using example_attention_step [OF example_module(1,2)] by blast
  have 1: "ksi_hat_cum a' = None"
    using inst a' example_module(4) by simp
  have 2: "ksi_hat_of (M example_attention) (map (linear (W_g example_attention)) [[0, 0]]) ! 0 ! 0
           = exp (linear (W_g example_attention) ([[0, 0]] ! 0) ! 0)"
    using inst by (simp add: example_module linear_zero)
  obtain s' where s': "forward_step example_query (Tensor example_memory) 0
                         (forward_init example_attention example_query) = Inr s'"
      and h: "h_l s' = [[0, 0]]"
    using example_forward_step [OF example_init, of example_query 0]
    by (auto simp: example_query_def zero_state_def)
  have 3: "weights_l s' = [example_weights] \<and> ksi_hat_cum (self_l s') = None"
    using inst s' h
    by (simp add: example_init_fields example_module example_weights_def example_memory_def
                  size1_def linear_zero numeral_3_eq_3 numeral_2_eq_2)
  show ?thesis using a' 1 2 s' 3 by blast
qed

subsection \<open>The forward pass of the attention module\<close>

lemma forward_step_termination:
  assumes "forward_step input_h_c (Tensor memory) i s = Inr s'"
  shows "termination_l s' =
           Some (map (\<lambda>h. map (\<lambda>pos. 1 - row_mix (M (self_l s)) (linear (W_g (self_l s)) h)
                                          (real pos + 1 / 2))
                               [0..<size1 memory])
                     (h_l s'))
         \<and> length (h_l s') = length memory
         \<and> contexts_l s' \<noteq> []
         \<and> M (self_l s') = M (self_l s) \<and> W_g (self_l s') = W_g (self_l s)"
proof -
  from assms obtain h c res self' where
    att: "attention (self_l s) h (Tensor memory) = Inr (res, self')"
    and s': "s' = s\<lparr>self_l := self', context_l := Rank3 (fst res), h_l := h, c_l := c,
                     contexts_l := contexts_l s @ [fst res],
                     weights_l := weights_l s @ [fst (snd res)],
                     termination_l := Some (snd (snd res))\<rparr>"
    by (auto simp: forward_step_def split: sum.splits prod.splits)
  have len: "length h = length memory"
    using att by (rule attention_Inr_length)
  have "snd (snd res)
        = map (\<lambda>h. map (\<lambda>pos. 1 - row_mix (M (self_l s)) (linear (W_g (self_l s)) h)
                                    (real pos + 1 / 2))
                         [0..<size1 memory]) h"
    using att unfolding attention_Tensor [OF len] by auto
  then show ?thesis
    using attention_keeps_parameters [OF att] len by (simp add: s')
qed

lemma forward_loop_termination:
  assumes "forward_loop input_h_c (Tensor memory) idx s = Inr s'" "idx \<noteq> []"
  shows "termination_l s' =
           Some (map (\<lambda>h. map (\<lambda>pos. 1 - row_mix (M (self_l s)) (linear (W_g (self_l s)) h)
                                          (real pos + 1 / 2))
                               [0..<size1 memory])
                     (h_l s'))
         \<and> length (h_l s') = length memory
         \<and> contexts_l s' \<noteq> []"
  using assms
proof (induction idx arbitrary: s)
  case Nil
  then show ?case by simp
next
  case (Cons i rest)
  from Cons.prems(1) obtain s1 where
    s1: "forward_step input_h_c (Tensor memory) i s = Inr s1"
    and rest: "forward_loop input_h_c (Tensor memory) rest s1 = Inr s'"
    by (auto split: sum.splits)
  note step = forward_step_termination [OF s1]
  show ?case
  proof (cases "rest = []")
    case True
    then show ?thesis using step rest by simp
  next
    case False
    from Cons.IH [OF rest False] step show ?thesis by simp
  qed
qed

lemma gather1_nth:
  assumes "gather1 t idx = Inr r" "j < length idx"
  shows "j < length t \<and> 0 \<le> idx ! j \<and> idx ! j < int (length (t ! j))
         \<and> r ! j = [t ! j ! nat (idx ! j)]"
proof -
  have len: "length idx \<le> length t"
    using assms(1) by (auto simp: gather1_def split: if_splits)
  have ok: "\<not> list_ex (\<lambda>(row, j). j < 0 \<or> int (length row) \<le> j) (zip t idx)"
    using assms(1) by (auto simp: gather1_def split: if_splits)
  have r: "r = map (\<lambda>(row, j). [row ! nat j]) (zip t idx)"
    using assms(1) by (auto simp: gather1_def split: if_splits)
  have "(t ! j, idx ! j) \<in> set (zip t idx)"
    using assms(2) len by (auto simp: set_zip)
  then have "\<not> (idx ! j < 0 \<or> int (length (t ! j)) \<le> idx ! j)"
    using ok by (auto simp: list_ex_iff)
  then show ?thesis
    using assms(2) len by (simp add: r)
qed

lemma row_mix_spec_termination:
  assumes "length r = 3 * m"
  shows "1 - row_mix m r (real pos + 1 / 2) = spec_termination_at m r pos"
  by (simp add: spec_termination_at_def row_mix_spec [OF assms])

lemma forward_loop_Nil_contexts:
  "forward_loop input_h_c memory [] (forward_init self input_h_c) = Inr s
   \<Longrightarrow> contexts_l s = []"
  by (auto simp: forward_init_def Let_def)

lemma row_mix_example: "row_mix (Suc 0) [0, 0, 0] z = 1 / (1 + exp (1 - z))"
  by (simp add: row_mix_def softmax_def slice_def)

lemma example_termination_values:
  "example_termination = [[1 - 1 / (1 + exp (1 / 2)), 1 - 1 / (1 + exp (- (1 / 2)))]]"
  by (simp add: example_termination_def row_mix_example upt_rec [of 0] upt_rec [of 1]
                numeral_2_eq_2)

lemma spec_termination_at_example:
  "spec_termination_at (Suc 0) [0, 0, 0] pos = 1 - 1 / (1 + exp (1 / 2 - real pos))"
  using row_mix_spec_termination [of "[0, 0, 0]" "Suc 0" pos] by (simp add: row_mix_example)

lemma example_spec_step_termination:
  "spec_step_termination example_attention example_query example_memory i 0
   = Some (1 - 1 / (1 + exp (- (1 / 2))))"
proof -
  obtain s where
    s: "forward_loop example_query (Tensor example_memory) [0..<Suc i]
          (forward_init example_attention example_query) = Inr s"
    and z: "zero_state s"
    using example_forward_loop [OF example_init, of example_query "[0..<Suc i]"]
    by (auto simp: example_query_def)
  have h: "h_l s = [[0, 0]]"
    using z by (simp add: zero_state_def)
  have m: "size1 example_memory = 2"
    by (simp add: example_memory_def size1_def)
  show ?thesis
    unfolding spec_step_termination_def s
    by (simp add: h m example_module linear_zero numeral_3_eq_3 spec_termination_at_example)
qed

lemma forward_step_context:
  assumes "forward_step input_h_c (Tensor memory) i s = Inr s'"
  shows "\<exists>c. context_l s' = Rank3 c \<and> (\<forall>cb \<in> set c. length cb = 1)"
proof -
  from assms obtain h c res self' where
    att: "attention (self_l s) h (Tensor memory) = Inr (res, self')"
    and s': "s' = s\<lparr>self_l := self', context_l := Rank3 (fst res), h_l := h, c_l := c,
                     contexts_l := contexts_l s @ [fst res],
                     weights_l := weights_l s @ [fst (snd res)],
                     termination_l := Some (snd (snd res))\<rparr>"
    by (auto simp: forward_step_def split: sum.splits prod.splits)
  have len: "length h = length memory"
    using att by (rule attention_Inr_length)
  have "\<forall>cb \<in> set (fst res). length cb = 1"
    using att unfolding attention_Tensor [OF len]
    by (auto simp: matmul_def dest!: set_zip_leftD)
  then show ?thesis by (simp add: s')
qed

lemma forward_loop_context:
  assumes "forward_loop input_h_c (Tensor memory) idx s = Inr s'" "idx \<noteq> []"
  shows "\<exists>c. context_l s' = Rank3 c \<and> (\<forall>cb \<in> set c. length cb = 1)"
  using assms
proof (induction idx arbitrary: s)
  case Nil
  then show ?case by simp
next
  case (Cons i rest)
  from Cons.prems(1) obtain s1 where
    s1: "forward_step input_h_c (Tensor memory) i s = Inr s1"
    and rest: "forward_loop input_h_c (Tensor memory) rest s1 = Inr s'"
    by (auto split: sum.splits)
  show ?case
  proof (cases "rest = []")
    case True
    then show ?thesis using forward_step_context [OF s1] rest by simp
  next
    case False
    then show ?thesis using Cons.IH [OF rest] by simp
  qed
qed

lemma Attention_forward_context_one_step:
  assumes "Attention_forward self input_h_c (Tensor memory) input_lengths
             = Inr ((ctx, alignment, termination), self')"
  shows "\<exists>c. ctx = Rank3 c \<and> (\<forall>cb \<in> set c. length cb = 1)"
proof -
  from assms obtain s cs where
    loop: "forward_loop input_h_c (Tensor memory) [0..<size1 input_h_c]
             (forward_init self input_h_c) = Inr s"
    and cat: "cat_dim1 (contexts_l s) = Inr cs"
    and ctx: "ctx = context_l s"
    by (auto simp: Attention_forward_def Let_def split: sum.splits option.splits)
  have ne: "contexts_l s \<noteq> []"
    using cat by (auto simp: cat_dim1_def)
  have "[0..<size1 input_h_c] \<noteq> []"
  proof
    assume "[0..<size1 input_h_c] = []"
    then have "contexts_l s = []"
      using loop forward_loop_Nil_contexts [of input_h_c "Tensor memory" self s] by simp
    with ne show False by simp
  qed
  then show ?thesis
    using forward_loop_context [OF loop] ctx by simp
qed

text \<open>
  Claim C2, as the code has it. Every step of the loop computes a termination vector
  with one entry per memory position \<open>pos\<close>, namely 1 minus the sum over the components
  of \<open>mix_weight * CDF (pos + 1/2)\<close>; its entry at the last position is the termination
  probability of the specification. A forward pass that returns has run at least one
  step and keeps the vector of the final step only; the value it returns for sample
  \<open>j\<close> is the entry of that vector at memory position \<open>input_lengths[j] - 1\<close>, and
  \<open>input_lengths[j]\<close> lies between 1 and the memory length.
\<close>

theorem Attention_forward_termination:
  assumes fwd: "Attention_forward self input_h_c (Tensor memory) input_lengths
                  = Inr ((ctx, alignment, termination), self')"
      and wg: "length (weight (W_g self)) = 3 * M self" "length (bias (W_g self)) = 3 * M self"
      and j: "j < length input_lengths"
  shows "\<exists>s term.
           forward_loop input_h_c (Tensor memory) [0..<size1 input_h_c]
             (forward_init self input_h_c) = Inr s
         \<and> 0 < size1 input_h_c
         \<and> termination_l s = Some term
         \<and> j < length (h_l s)
         \<and> term ! j = map (spec_termination_at (M self) (linear (W_g self) (h_l s ! j)))
                           [0..<size1 memory]
         \<and> 1 \<le> input_lengths ! j \<and> input_lengths ! j \<le> int (size1 memory)
         \<and> termination ! j = [term ! j ! nat (input_lengths ! j - 1)]
         \<and> (\<forall>i s0 s1. forward_step input_h_c (Tensor memory) i s0 = Inr s1
                \<and> M (self_l s0) = M self \<and> W_g (self_l s0) = W_g self \<longrightarrow>
                termination_l s1
                  = Some (map (\<lambda>h. map (spec_termination_at (M self) (linear (W_g self) h))
                                        [0..<size1 memory])
                              (h_l s1)))"
proof -
  let ?idx = "[0..<size1 input_h_c]"
  let ?s0 = "forward_init self input_h_c"
  from fwd obtain s cs al tm where
    loop: "forward_loop input_h_c (Tensor memory) ?idx ?s0 = Inr s"
    and cat: "cat_dim1 (contexts_l s) = Inr cs"
    and tms: "termination_l s = Some tm"
    and g: "gather1 tm (map (\<lambda>n. n - 1) input_lengths) = Inr termination"
    by (auto simp: Attention_forward_def Let_def split: sum.splits option.splits)
  have ne: "contexts_l s \<noteq> []"
    using cat by (auto simp: cat_dim1_def)
  have idx: "?idx \<noteq> []"
  proof
    assume "?idx = []"
    then have "contexts_l s = []"
      using loop forward_loop_Nil_contexts [of input_h_c "Tensor memory" self s] by simp
    with ne show False by simp
  qed
  then have T: "0 < size1 input_h_c" by simp
  have s0: "M (self_l ?s0) = M self" "W_g (self_l ?s0) = W_g self"
    by (simp_all add: forward_init_def Let_def)
  have inv: "tm = map (\<lambda>h. map (\<lambda>pos. 1 - row_mix (M self) (linear (W_g self) h)
                                              (real pos + 1 / 2))
                                   [0..<size1 memory])
                         (h_l s)"
    using forward_loop_termination [OF loop idx] tms by (simp add: s0)
  have ga: "j < length tm" "0 \<le> input_lengths ! j - 1"
           "input_lengths ! j - 1 < int (length (tm ! j))"
           "termination ! j = [tm ! j ! nat (input_lengths ! j - 1)]"
    using gather1_nth [OF g, of j] j by simp_all
  have jh: "j < length (h_l s)"
    using ga(1) by (simp add: inv)
  have r: "length (linear (W_g self) (h_l s ! j)) = 3 * M self"
    using wg by (simp add: length_linear)
  have tj: "tm ! j = map (spec_termination_at (M self) (linear (W_g self) (h_l s ! j)))
                           [0..<size1 memory]"
    using jh by (simp add: inv row_mix_spec_termination [OF r])
  have "length (tm ! j) = size1 memory"
    by (simp add: tj)
  then have "1 \<le> input_lengths ! j" "input_lengths ! j \<le> int (size1 memory)"
    using ga(2,3) by simp_all
  moreover have "termination_l s1
                  = Some (map (\<lambda>h. map (spec_termination_at (M self) (linear (W_g self) h))
                                        [0..<size1 memory])
                              (h_l s1))"
    if step: "forward_step input_h_c (Tensor memory) i s0 = Inr s1"
      and par: "M (self_l s0) = M self" "W_g (self_l s0) = W_g self" for i s0 s1
  proof -
    have "length (linear (W_g self) h) = 3 * M self" for h
      using wg by (simp add: length_linear)
    then show ?thesis
      using forward_step_termination [OF step]
      by (simp add: par row_mix_spec_termination)
  qed
  ultimately show ?thesis
    using loop T tms jh tj ga(4) by blast
qed

theorem Attention_forward_termination_witness:
  "\<exists>ctx al tv a'.
     Attention_forward example_attention example_query (Tensor example_memory) [1]
       = Inr ((ctx, al, tv), a')
     \<and> tv ! 0 = [spec_termination_at 1 [0, 0, 0] 0]
     \<and> tv ! 0 = [1 - 1 / (1 + exp (1 / 2))]"
proof -
  obtain a' where
    e: "Attention_forward example_attention example_query (Tensor example_memory) [1]
          = Inr ((Rank3 example_context, [example_weights ! 0 @ example_weights ! 0],
                  [[example_termination ! 0 ! nat (1 - 1)]]), a')"
    using example_Attention_forward [of 1] by auto
  have h1: "length (weight (W_g example_attention)) = 3 * M example_attention"
    and h2: "length (bias (W_g example_attention)) = 3 * M example_attention"
    by (simp_all add: example_module zero_linear_def)
  have h3: "0 < length [1 :: int]" by simp
  obtain s :: forward_locals and tm where
    "tm ! 0 = map (spec_termination_at (M example_attention)
                     (linear (W_g example_attention) (h_l s ! 0)))
                  [0..<size1 example_memory]"
    "[[example_termination ! 0 ! nat (1 - 1)]] ! 0 = [tm ! 0 ! nat ([1] ! 0 - 1)]"
    using Attention_forward_termination [OF e h1 h2 h3] by blast
  then have "[[example_termination ! 0 ! nat (1 - 1)]] ! 0 = [spec_termination_at 1 [0, 0, 0] 0]"
    by (simp add: example_module linear_zero numeral_3_eq_3 example_memory_def size1_def)
  then show ?thesis
    using e by (simp add: spec_termination_at_example)
qed

text \<open>
  On the example (two output steps, memory of length 2, length vector \<open>[1]\<close>) the
  returned value is the final step's entry at memory position 0, which differs from
  the per-step termination output of the specification at step 0 and at step 1.
\<close>

theorem termination_gather_counterexample:
  "map_sum id (snd \<circ> snd \<circ> fst)
     (Attention_forward example_attention example_query (Tensor example_memory) [1])
     = Inr [[1 - 1 / (1 + exp (1 / 2))]]
   \<and> spec_step_termination example_attention example_query example_memory 0 0
     = Some (1 - 1 / (1 + exp (- (1 / 2))))
   \<and> spec_step_termination example_attention example_query example_memory 1 0
     = Some (1 - 1 / (1 + exp (- (1 / 2))))
   \<and> (1 - 1 / (1 + exp (1 / 2)) :: real) \<noteq> 1 - 1 / (1 + exp (- (1 / 2)))"
proof -
  obtain a' where
    e: "Attention_forward example_attention example_query (Tensor example_memory) [1]
          = Inr ((Rank3 example_context, [example_weights ! 0 @ example_weights ! 0],
                  [[example_termination ! 0 ! nat (1 - 1)]]), a')"
    using example_Attention_forward [of 1] by auto
  have ne: "(1 - 1 / (1 + exp (1 / 2)) :: real) \<noteq> 1 - 1 / (1 + exp (- (1 / 2)))"
  proof
    assume "(1 - 1 / (1 + exp (1 / 2)) :: real) = 1 - 1 / (1 + exp (- (1 / 2)))"
    then have "1 / (1 + exp (1 / 2 :: real)) = 1 / (1 + exp (- (1 / 2)))" by simp
    moreover have "0 < 1 + exp (1 / 2 :: real)" "0 < 1 + exp (- (1 / 2) :: real)"
      by (simp_all add: add_pos_pos)
    ultimately have "exp (1 / 2 :: real) = exp (- (1 / 2))"
      by (simp add: frac_eq_eq)
    then show False by simp
  qed
  show ?thesis
    using ne by (simp add: e example_termination_values example_spec_step_termination)
qed

text \<open>
  Claim C3. On a query of two output steps the forward pass returns an alignment over
  both steps and a context of one step: line 77 returns the local \<open>context\<close> of the
  last step, not the concatenation \<open>contexts\<close> of line 73.
\<close>

theorem Attention_forward_returns_one_context:
  "\<exists>al tv a'.
     Attention_forward example_attention example_query (Tensor example_memory) [1]
       = Inr ((Rank3 example_context, al, tv), a')
     \<and> size1 example_query = 2 \<and> size1 al = 2 \<and> size1 example_context = 1"
proof -
  obtain a' where
    e: "Attention_forward example_attention example_query (Tensor example_memory) [1]
          = Inr ((Rank3 example_context, [example_weights ! 0 @ example_weights ! 0],
                  [[example_termination ! 0 ! nat (1 - 1)]]), a')"
    using example_Attention_forward [of 1] by auto
  have "size1 example_query = 2"
    by (simp add: example_query_def size1_def)
  moreover have "size1 [example_weights ! 0 @ example_weights ! 0] = 2"
    by (simp add: example_weights_def size1_def)
  moreover have "size1 example_context = 1"
    by (simp add: example_context_def size1_def matmul_def)
  ultimately show ?thesis using e by blast
qed

subsection \<open>The sequence model: length mask and sampling\<close>

lemma example_tts_fields:
  "W_t_0 example_tts = zero_linear 1 2" "W_f_0 example_tts = zero_linear 1 2"
  "W_c_0 example_tts = zero_linear 1 2" "layers example_tts = [Inr]" "K example_tts = 1"
  "W_theta example_tts = \<lparr>weight = [[0, 0], [0, 0], [0, 0]], bias = [5, 0, 0]\<rparr>"
  "TextEncoder example_tts = example_encoder" "attention_module example_tts = example_attention"
  by (simp_all add: example_tts_def)

lemma example_tts_init: "TTS_init example_hp 80 1 1 example_fresh = Inr example_tts"
  by (simp add: TTS_init_def example_tts_def example_fresh_def example_hp_def
                example_attention_def)

lemma example_context_query:
  "context_query (zero_linear 1 2) example_x = [[[0, 0], [0, 0]]]"
  by (simp add: context_query_def example_x_def size1_def transpose2_def pad_time_def
                linear_zero upt_rec [of 0] upt_rec [of 1] numeral_2_eq_2)

lemma example_encoder_memory: "example_encoder [[1, 3]] = (example_memory, ([], []))"
  by (simp add: example_encoder_def example_memory_def)

lemma example_Attention_forward_shape:
  assumes "n = 1 \<or> n = 2" "length q = 1" "size1 q = 2" "size2 q = 2"
  shows "\<exists>a'. Attention_forward example_attention q (Tensor example_memory) [n]
               = Inr ((Rank3 example_context,
                       [example_weights ! 0 @ example_weights ! 0],
                       [[example_termination ! 0 ! nat (n - 1)]]), a')"
proof -
  have idx: "[0..<2] = [0, 1]"
    by (simp add: upt_rec [of 0] upt_rec [of 1] numeral_2_eq_2)
  have init: "zero_state (forward_init example_attention q)"
    using assms(2,4)
    by (simp add: zero_state_def forward_init_def Let_def example_module numeral_2_eq_2)
  obtain s where s: "forward_loop q (Tensor example_memory) [0, 1]
                       (forward_init example_attention q) = Inr s"
    and f: "context_l s = Rank3 example_context"
           "contexts_l s = [example_context, example_context]"
           "weights_l s = [example_weights, example_weights]"
           "termination_l s = Some example_termination"
    using example_forward_loop [OF init assms(2), of "[0, 1]"]
    by (auto simp: example_init_fields numeral_2_eq_2)
  have c: "cat_dim1 [example_context, example_context]
           = Inr [example_context ! 0 @ example_context ! 0]"
    by (simp add: cat_dim1_def example_context_def)
  have w: "cat_dim1 [example_weights, example_weights]
           = Inr [example_weights ! 0 @ example_weights ! 0]"
    by (simp add: cat_dim1_def example_weights_def)
  have g: "gather1 example_termination [n - 1] = Inr [[example_termination ! 0 ! nat (n - 1)]]"
    using assms(1) by (auto simp: gather1_def example_termination_def)
  show ?thesis
    unfolding Attention_forward_def Let_def assms(3) idx s
    by (simp add: f c w g)
qed

lemma example_TTS_forward_params:
  "\<exists>al t'. TTS_forward_params example_tts example_x [[1, 3]] [2]
            = Inr (([[[[5], [5]]]], [[[[1], [1]]]], [[[[1], [1]]]], al), t')"
proof -
  have q: "length [[[0, 0], [0, 0 :: real]]] = 1" "size1 [[[0, 0], [0, 0 :: real]]] = 2"
          "size2 [[[0, 0], [0, 0 :: real]]] = 2"
    by (simp_all add: size1_def size2_def)
  obtain a' where
    a: "Attention_forward example_attention [[[0, 0], [0, 0]]] (Tensor example_memory) [2]
          = Inr ((Rank3 example_context, [example_weights ! 0 @ example_weights ! 0],
                  [[example_termination ! 0 ! nat (2 - 1)]]), a')"
    using example_Attention_forward_shape [OF _ q, of 2] by auto
  have e: "embed (zero_linear 1 2) (map pad_freq example_x) = [[[[0, 0], [0, 0]]]]"
    by (simp add: embed_def example_x_def pad_freq_def linear_zero numeral_2_eq_2 size1_def)
  have l: "linear \<lparr>weight = [[0, 0], [0, 0], [0, 0]], bias = [5, 0, 0]\<rparr> [0, 0] = [5, 0, 0]"
    by (simp add: linear_def)
  show ?thesis
    unfolding TTS_forward_params_def example_tts_fields example_encoder_memory
              example_context_query e
    by (simp add: a l slice_def softmax_def)
qed

lemma length_mask_nth:
  assumes "b < length ls" "t < n"
  shows "length (length_mask ls n ! b) = n" "length_mask ls n ! b ! t = (ls ! b \<le> int t)"
  using assms by (auto simp: length_mask_def Let_def simp del: upt_Suc)

lemma length_length_mask: "length (length_mask ls n) = length ls"
  by (simp add: length_mask_def Let_def)

lemma masked_fill_nth:
  assumes len: "length msk = length t"
      and b: "b < length t" and m: "m < length (t ! b)"
      and row: "length (t ! b ! m) = length (msk ! b)" and tt: "tt < length (t ! b ! m)"
  shows "\<exists>r. masked_fill t msk v = Inr r
             \<and> r ! b ! m ! tt = map (\<lambda>x. if msk ! b ! tt then v else x) (t ! b ! m ! tt)"
  using assms by (simp add: masked_fill_def fill_sample_def)

lemma masked_fill_shape:
  assumes len: "length msk = length t"
      and rect: "\<forall>b < length t. \<forall>tm \<in> set (t ! b). length tm = length (msk ! b)"
  shows "\<exists>r. masked_fill t msk v = Inr r \<and> map (map (map length)) r = map (map (map length)) t"
proof -
  have "map (map (map length)) (map (\<lambda>(tb, mb). fill_sample tb mb v) (zip t msk))
        = map (map (map length)) t"
  proof (rule nth_equalityI)
    show "length (map (map (map length)) (map (\<lambda>(tb, mb). fill_sample tb mb v) (zip t msk)))
          = length (map (map (map length)) t)"
      using len by simp
  next
    fix b
    assume "b < length (map (map (map length)) (map (\<lambda>(tb, mb). fill_sample tb mb v) (zip t msk)))"
    then have b: "b < length t" using len by simp
    have "map (map length) (fill_sample (t ! b) (msk ! b) v) = map (map length) (t ! b)"
      unfolding fill_sample_def
    proof (simp, intro ballI)
      fix tm
      assume "tm \<in> set (t ! b)"
      then have "length tm = length (msk ! b)" using rect b by simp
      then show "map (length \<circ> (\<lambda>(tt, m). map (\<lambda>x. if m then v else x) tt)) (zip tm (msk ! b))
                 = map length tm"
        by (intro nth_equalityI) simp_all
    qed
    then show "map (map (map length)) (map (\<lambda>(tb, mb). fill_sample tb mb v) (zip t msk)) ! b
               = map (map (map length)) t ! b"
      using b len by simp
  qed
  then show ?thesis using len by (simp add: masked_fill_def)
qed

lemma TTS_forward_params_std_shape:
  assumes "TTS_forward_params self x text input_lengths = Inr ((mu0, std0, pis0, al), self')"
  shows "map (map length) std0 = map (map length) mu0"
proof -
  from assms obtain hf where
    "mu0 = map (map (map (take (K self) \<circ> linear (W_theta self)))) hf"
    "std0 = map (map (map ((\<lambda>r. map exp (slice (K self) (2 * K self) r))
                           \<circ> linear (W_theta self)))) hf"
    by (auto simp: TTS_forward_params_def Let_def split: prod.splits sum.splits)
  then show ?thesis by (simp add: o_def)
qed

text \<open>
  Claim C6. Let the forward pass reach the mask with mixture parameters \<open>mu0\<close>,
  \<open>std0\<close>, \<open>pis0\<close>, one output length per sample, and \<open>mu0\<close> rectangular along the
  time axis. Then \<open>TTS.forward\<close> returns; at every sample \<open>b\<close>, frequency bin \<open>m\<close>
  and timestep \<open>t\<close> with \<open>t\<close> at or beyond the sample's output length, all components
  of the mean are 0 and all components of the scale are \<open>1 / sqrt (2 pi)\<close>; at every
  timestep below the output length mean and scale are unchanged; the mixture weights
  and the shapes are unchanged.
\<close>

theorem TTS_forward_length_mask:
  assumes params: "TTS_forward_params self x text input_lengths
                     = Inr ((mu0, std0, pis0, alignment), self')"
      and lens: "length output_lengths = length mu0"
      and rect: "\<forall>tb \<in> set mu0. \<forall>tm \<in> set tb. length tm = size2 mu0"
  shows "\<exists>mu std.
           TTS_forward self x text input_lengths output_lengths
             = Inr ((mu, std, pis0, alignment), self')
         \<and> map (map (map length)) mu = map (map (map length)) mu0
         \<and> map (map (map length)) std = map (map (map length)) std0
         \<and> (\<forall>b m t. b < length mu0 \<and> m < length (mu0 ! b) \<and> t < size2 mu0 \<longrightarrow>
               mu ! b ! m ! t
                 = (if output_lengths ! b \<le> int t then map (\<lambda>v. 0) (mu0 ! b ! m ! t)
                    else mu0 ! b ! m ! t)
             \<and> std ! b ! m ! t
                 = (if output_lengths ! b \<le> int t
                    then map (\<lambda>v. 1 / sqrt (2 * pi)) (std0 ! b ! m ! t)
                    else std0 ! b ! m ! t))"
proof -
  let ?T = "size2 mu0"
  let ?msk = "length_mask output_lengths ?T"
  have shape: "map (map length) std0 = map (map length) mu0"
    using params by (rule TTS_forward_params_std_shape)
  have lstd: "length std0 = length mu0"
    using arg_cong [OF shape, of length] by simp
  have lmsk: "length ?msk = length mu0" "length ?msk = length std0"
    using lens lstd by (simp_all add: length_length_mask)
  have row_mu: "length tm = length (?msk ! b)" if "b < length mu0" "tm \<in> set (mu0 ! b)" for b tm
  proof -
    have "length tm = ?T" using rect that by (auto dest: nth_mem)
    moreover have "length (?msk ! b) = ?T"
      using that(1) lens by (simp add: length_mask_def Let_def)
    ultimately show ?thesis by simp
  qed
  have sb: "map length (std0 ! b) = map length (mu0 ! b)" if "b < length mu0" for b
    using arg_cong [OF shape, of "\<lambda>l. l ! b"] that lstd by simp
  have row_std: "length tm = length (?msk ! b)"
    if bs: "b < length std0" and tms: "tm \<in> set (std0 ! b)" for b tm
  proof -
    have b: "b < length mu0" using bs lstd by simp
    obtain m where m: "m < length (std0 ! b)" "tm = std0 ! b ! m"
      using tms by (auto simp: in_set_conv_nth)
    have lm: "length (std0 ! b) = length (mu0 ! b)"
      using arg_cong [OF sb [OF b], of length] by simp
    have "length (std0 ! b ! m) = length (mu0 ! b ! m)"
      using arg_cong [OF sb [OF b], of "\<lambda>l. l ! m"] m(1) lm by simp
    moreover have "mu0 ! b ! m \<in> set (mu0 ! b)"
      using m(1) lm by simp
    ultimately show ?thesis using row_mu [OF b] m(2) by simp
  qed
  obtain mu where mu: "masked_fill mu0 ?msk 0 = Inr mu"
    and mu_shape: "map (map (map length)) mu = map (map (map length)) mu0"
    using masked_fill_shape [OF lmsk(1), of 0] row_mu by blast
  obtain std where std: "masked_fill std0 ?msk (1 / sqrt (2 * pi)) = Inr std"
    and std_shape: "map (map (map length)) std = map (map (map length)) std0"
    using masked_fill_shape [OF lmsk(2), of "1 / sqrt (2 * pi)"] row_std by blast
  have fwd: "TTS_forward self x text input_lengths output_lengths
               = Inr ((mu, std, pis0, alignment), self')"
    by (simp add: TTS_forward_def params Let_def mu std)
  have point: "mu ! b ! m ! t
                 = (if output_lengths ! b \<le> int t then map (\<lambda>v. 0) (mu0 ! b ! m ! t)
                    else mu0 ! b ! m ! t)
             \<and> std ! b ! m ! t
                 = (if output_lengths ! b \<le> int t
                    then map (\<lambda>v. 1 / sqrt (2 * pi)) (std0 ! b ! m ! t)
                    else std0 ! b ! m ! t)"
    if b: "b < length mu0" and m: "m < length (mu0 ! b)" and t: "t < ?T" for b m t
  proof -
    have bl: "b < length output_lengths" using b lens by simp
    have mk: "?msk ! b ! t = (output_lengths ! b \<le> int t)"
      by (rule length_mask_nth(2) [OF bl t])
    have lmk: "length (?msk ! b) = ?T"
      by (rule length_mask_nth(1) [OF bl t])
    have in_mu: "mu0 ! b ! m \<in> set (mu0 ! b)" using m by simp
    have r1: "length (mu0 ! b ! m) = length (?msk ! b)"
      using row_mu [OF b in_mu] .
    have t1: "t < length (mu0 ! b ! m)" using r1 lmk t by simp
    have bs: "b < length std0" using b lstd by simp
    have ms: "m < length (std0 ! b)"
      using arg_cong [OF sb [OF b], of length] m by simp
    have in_std: "std0 ! b ! m \<in> set (std0 ! b)" using ms by simp
    have r2: "length (std0 ! b ! m) = length (?msk ! b)"
      using row_std [OF bs in_std] .
    have t2: "t < length (std0 ! b ! m)" using r2 lmk t by simp
    have "mu ! b ! m ! t = map (\<lambda>x. if ?msk ! b ! t then 0 else x) (mu0 ! b ! m ! t)"
      using masked_fill_nth [OF lmsk(1) b m r1 t1, of 0] mu by simp
    moreover have "std ! b ! m ! t
                   = map (\<lambda>x. if ?msk ! b ! t then 1 / sqrt (2 * pi) else x) (std0 ! b ! m ! t)"
      using masked_fill_nth [OF lmsk(2) bs ms r2 t2, of "1 / sqrt (2 * pi)"] std by simp
    ultimately show ?thesis by (simp add: mk)
  qed
  show ?thesis
    using fwd mu_shape std_shape point by blast
qed

theorem TTS_forward_length_mask_witness:
  "\<exists>mu std pis al t'.
     TTS_forward example_tts example_x [[1, 3]] [2] [1] = Inr ((mu, std, pis, al), t')
     \<and> mu ! 0 ! 0 ! 0 = [5] \<and> mu ! 0 ! 0 ! 1 = [0]
     \<and> std ! 0 ! 0 ! 0 = [1] \<and> std ! 0 ! 0 ! 1 = [1 / sqrt (2 * pi)]
     \<and> pis = [[[[1], [1]]]]"
proof -
  let ?mu0 = "[[[[5], [5]]]] :: tensor4"
  let ?std0 = "[[[[1], [1]]]] :: tensor4"
  obtain al t' where
    p: "TTS_forward_params example_tts example_x [[1, 3]] [2]
          = Inr ((?mu0, ?std0, [[[[1], [1]]]], al), t')"
    using example_TTS_forward_params by blast
  have lens: "length [1 :: int] = length ?mu0" by simp
  have T: "size2 ?mu0 = 2"
    by (simp add: size2_def size1_def)
  have rect: "\<forall>tb \<in> set ?mu0. \<forall>tm \<in> set tb. length tm = size2 ?mu0"
    by (simp add: T)
  obtain mu std where
    f: "TTS_forward example_tts example_x [[1, 3]] [2] [1]
          = Inr ((mu, std, [[[[1], [1]]]], al), t')"
    and pt: "\<forall>b m t. b < length ?mu0 \<and> m < length (?mu0 ! b) \<and> t < size2 ?mu0 \<longrightarrow>
               mu ! b ! m ! t
                 = (if [1] ! b \<le> int t then map (\<lambda>v. 0) (?mu0 ! b ! m ! t)
                    else ?mu0 ! b ! m ! t)
             \<and> std ! b ! m ! t
                 = (if [1] ! b \<le> int t
                    then map (\<lambda>v. 1 / sqrt (2 * pi)) (?std0 ! b ! m ! t)
                    else ?std0 ! b ! m ! t)"
    using TTS_forward_length_mask [OF p lens rect] by blast
  have "mu ! 0 ! 0 ! 0 = [5] \<and> std ! 0 ! 0 ! 0 = [1]"
    using pt [rule_format, of 0 0 0] by (simp add: T)
  moreover have "mu ! 0 ! 0 ! 1 = [0] \<and> std ! 0 ! 0 ! 1 = [1 / sqrt (2 * pi)]"
    using pt [rule_format, of 0 0 1] by (simp add: T)
  ultimately show ?thesis using f by blast
qed

lemma sample_step_std:
  assumes "sample_step x memory input_lengths i s = Inr s'"
  shows "std_s s' = std_s s"
  using assms
  by (auto simp: sample_step_def Let_def split: sum.splits prod.splits if_splits)

lemma sample_loop_std:
  assumes "sample_loop x memory input_lengths idx s = Inr s'"
  shows "std_s s' = std_s s"
  using assms
proof (induction idx arbitrary: s)
  case Nil
  then show ?case by simp
next
  case (Cons i rest)
  from Cons.prems obtain s1 where
    "sample_step x memory input_lengths i s = Inr s1"
    "sample_loop x memory input_lengths rest s1 = Inr s'"
    by (auto split: sum.splits)
  then show ?case
    using Cons.IH [of s1] sample_step_std [of x memory input_lengths i s s1] by simp
qed

lemma sample_never_returns: "\<exists>e. sample self x text input_lengths = Inl e"
proof (cases "sample self x text input_lengths")
  case (Inl e)
  then show ?thesis by blast
next
  case (Inr r)
  then obtain s where
    loop: "sample_loop x (Tuple (TextEncoder self text)) input_lengths [0..<size2 x]
             \<lparr>self_s = self, x_t = x, x_f = x, mu_s = None, std_s = None, pi_s = None,
              termination_s = None\<rparr> = Inr s"
    and ret: "(case (mu_s s, std_s s, pi_s s, termination_s s) of
                (Some mu, Some std, Some pis, Some tv) \<Rightarrow> Inr ((mu, std, pis, tv), self_s s)
              | _ \<Rightarrow> Inl NameError) = Inr r"
    by (auto simp: sample_def Let_def split: sum.splits)
  have "std_s s = None"
    using sample_loop_std [OF loop] by simp
  with ret show ?thesis by (simp split: option.splits)
qed

lemma example_forward_Tuple:
  "Attention_forward example_attention [[[0, 0], [0, 0]]] (Tuple tp) il = Inl AttributeError"
proof -
  have idx: "[0..<2] = [0, 1]"
    by (simp add: upt_rec [of 0] upt_rec [of 1] numeral_2_eq_2)
  have T: "size1 [[[0, 0], [0, 0 :: real]]] = 2"
    by (simp add: size1_def)
  have init: "forward_init example_attention [[[0, 0], [0, 0]]]
              = \<lparr>self_l = example_attention, context_l = Rank2 [[0, 0]], h_l = [[0, 0]],
                 c_l = [[0, 0]], contexts_l = [], weights_l = [], termination_l = None\<rparr>"
    by (simp add: forward_init_def Let_def size2_def size1_def numeral_2_eq_2)
  have att: "attention a h (Tuple tp) = Inl AttributeError" for a h
    by (simp add: attention_def Let_def)
  have step: "forward_step [[[0, 0], [0, 0]]] (Tuple tp) 0
                (forward_init example_attention [[[0, 0], [0, 0]]]) = Inl AttributeError"
    unfolding init
    by (simp add: forward_step_def squeeze1_def size1_def cat_last_def att
             split: prod.splits)
  show ?thesis
    unfolding Attention_forward_def Let_def T idx
    by (simp add: step)
qed

text \<open>
  Claim C7. \<open>TTS.sample\<close> never returns. On the example the first iteration raises
  \<open>AttributeError\<close>, because \<open>memory\<close> is the encoder's tuple; and for every input a
  loop that ran to its end would reach a \<open>return\<close> that reads the unassigned local
  \<open>std\<close>.
\<close>

theorem sample_raises:
  "sample example_tts example_x [[1, 3]] [2] = Inl AttributeError
   \<and> (\<forall>self x text input_lengths. \<exists>e. sample self x text input_lengths = Inl e)"
proof -
  have idx: "[0..<2] = [0, 1]"
    by (simp add: upt_rec [of 0] upt_rec [of 1] numeral_2_eq_2)
  have T: "size2 example_x = 2"
    by (simp add: example_x_def size2_def size1_def)
  have step: "sample_step example_x (Tuple tp) [2] 0
                \<lparr>self_s = example_tts, x_t = example_x, x_f = example_x, mu_s = None,
                 std_s = None, pi_s = None, termination_s = None\<rparr> = Inl AttributeError" for tp
  proof -
    have q: "context_query (W_c_0 example_tts) example_x = [[[0, 0], [0, 0]]]"
      unfolding example_tts_fields by (rule example_context_query)
    show ?thesis
      unfolding sample_step_def Let_def
      by (simp add: q example_tts_fields(8) example_forward_Tuple)
  qed
  have "sample example_tts example_x [[1, 3]] [2] = Inl AttributeError"
    unfolding sample_def Let_def T idx
    by (simp add: step)
  then show ?thesis
    using sample_never_returns by blast
qed

subsection \<open>Collation\<close>

lemma foldr_max_Max:
  fixes ns :: "nat list"
  assumes "ns \<noteq> []"
  shows "foldr max ns 0 = Max (set ns)"
  using assms
proof (induction ns)
  case Nil
  then show ?case by simp
next
  case (Cons n ns)
  show ?case
  proof (cases "ns = []")
    case True
    then show ?thesis by simp
  next
    case False
    then show ?thesis using Cons.IH by simp
  qed
qed

lemma pad_sequence_right_pad:
  assumes "seqs \<noteq> []"
  shows "pad_sequence z seqs = map (right_pad (Max (length ` set seqs)) z) seqs"
  using foldr_max_Max [of "map length seqs"] assms
  by (simp add: pad_sequence_def Let_def right_pad_def)

lemma length_transpose2: "length (transpose2 r c m) = c"
  by (simp add: transpose2_def)

lemma transpose2_nth:
  "j < c \<Longrightarrow> i < r \<Longrightarrow> transpose2 r c m ! j ! i = m ! i ! j"
  by (simp add: transpose2_def)

lemma transpose2_row_length: "j < c \<Longrightarrow> length (transpose2 r c m ! j) = r"
  by (simp add: transpose2_def)

lemma pad_transpose_back:
  assumes rect: "\<forall>row \<in> set x. length row = t" and n: "t \<le> n"
  shows "transpose2 n (length x)
           (right_pad n (replicate (length x) 0) (transpose2 (length x) t x))
         = map (right_pad n (0::real)) x"
proof (rule nth_equalityI)
  show "length (transpose2 n (length x)
                 (right_pad n (replicate (length x) 0) (transpose2 (length x) t x)))
        = length (map (right_pad n (0::real)) x)"
    by (simp add: length_transpose2)
next
  fix f
  assume "f < length (transpose2 n (length x)
                        (right_pad n (replicate (length x) 0) (transpose2 (length x) t x)))"
  then have f: "f < length x" by (simp add: length_transpose2)
  have lf: "length (x ! f) = t" using rect f by simp
  have "transpose2 n (length x)
          (right_pad n (replicate (length x) 0) (transpose2 (length x) t x)) ! f
        = right_pad n 0 (x ! f)"
  proof (rule nth_equalityI)
    show "length (transpose2 n (length x)
                   (right_pad n (replicate (length x) 0) (transpose2 (length x) t x)) ! f)
          = length (right_pad n 0 (x ! f))"
      using f lf n by (simp add: transpose2_row_length right_pad_def)
  next
    fix i
    assume "i < length (transpose2 n (length x)
                          (right_pad n (replicate (length x) 0) (transpose2 (length x) t x)) ! f)"
    then have i: "i < n" using f by (simp add: transpose2_row_length)
    show "transpose2 n (length x)
            (right_pad n (replicate (length x) 0) (transpose2 (length x) t x)) ! f ! i
          = right_pad n 0 (x ! f) ! i"
    proof (cases "i < t")
      case True
      then show ?thesis
        using f i lf
        by (simp add: transpose2_nth right_pad_def nth_append length_transpose2)
    next
      case False
      then show ?thesis
        using f i lf n
        by (simp add: transpose2_nth right_pad_def nth_append length_transpose2)
    qed
  qed
  then show "transpose2 n (length x)
               (right_pad n (replicate (length x) 0) (transpose2 (length x) t x)) ! f
             = map (right_pad n (0::real)) x ! f"
    using f by simp
qed

lemma pad_spectrograms_right_pad:
  assumes ne: "xs \<noteq> []"
      and F: "\<forall>x \<in> set xs. length x = length (hd xs)"
      and rect: "\<forall>x \<in> set xs. \<forall>row \<in> set x. length row = size1 x"
  shows "pad_spectrograms xs = Inr (map (map (right_pad (Max (size1 ` set xs)) 0)) xs)"
proof -
  let ?n = "Max (size1 ` set xs)"
  let ?seqs = "map (\<lambda>x. transpose2 (length x) (size1 x) x) xs"
  obtain x0 rest where xs: "xs = x0 # rest"
    using ne by (cases xs) auto
  have ok: "\<not> list_ex (\<lambda>x. length x \<noteq> length x0) xs"
    using F by (simp add: xs list_ex_iff)
  have img: "length ` set ?seqs = size1 ` set xs"
    by (simp add: image_image length_transpose2)
  have pad: "pad_sequence (replicate (length x0) 0) ?seqs
             = map (right_pad ?n (replicate (length x0) 0)) ?seqs"
    using pad_sequence_right_pad [of ?seqs "replicate (length x0) 0"] ne
    by (simp only: img) simp
  have each: "transpose2 (length (right_pad ?n (replicate (length x0) 0)
                                    (transpose2 (length x) (size1 x) x)))
                (length x0)
                (right_pad ?n (replicate (length x0) 0) (transpose2 (length x) (size1 x) x))
              = map (right_pad ?n 0) x" if x: "x \<in> set xs" for x
  proof -
    have le: "size1 x \<le> ?n" using x by simp
    have lx: "length x = length x0" using F x by (auto simp: xs)
    have len: "length (right_pad ?n (replicate (length x0) 0)
                         (transpose2 (length x) (size1 x) x)) = ?n"
      using le by (simp add: right_pad_def length_transpose2)
    have r: "\<forall>row \<in> set x. length row = size1 x" using rect x by blast
    show ?thesis
      unfolding len using pad_transpose_back [OF r le] by (simp add: lx)
  qed
  have "pad_spectrograms xs
        = Inr (map (\<lambda>p. transpose2 (length p) (length x0) p)
                 (map (right_pad ?n (replicate (length x0) 0)) ?seqs))"
    using ok unfolding pad_spectrograms_def xs [symmetric] pad [symmetric]
    by (simp add: xs Let_def)
  also have "map (\<lambda>p. transpose2 (length p) (length x0) p)
               (map (right_pad ?n (replicate (length x0) 0)) ?seqs)
             = map (map (right_pad ?n 0)) xs"
    using each by (simp add: o_def)
  finally show ?thesis .
qed

lemma trim_right_pad: "take (length xs) (right_pad n z xs) = xs"
  by (simp add: right_pad_def)

lemma trim_rows:
  assumes "\<forall>row \<in> set x. length row = t"
  shows "map (take t) (map (right_pad n z) x) = x"
  using assms by (induction x) (simp_all add: right_pad_def)

lemma pad_spectrograms_map:
  assumes ne: "batch \<noteq> []"
      and F: "\<forall>x \<in> set batch. length (g x) = length (g (hd batch))"
      and rect: "\<forall>x \<in> set batch. \<forall>row \<in> set (g x). length row = size1 (g x)"
  shows "pad_spectrograms (map g batch)
         = Inr (map (\<lambda>x. map (right_pad (Max ((\<lambda>x. size1 (g x)) ` set batch)) 0) (g x)) batch)"
proof -
  have 1: "map g batch \<noteq> []" using ne by simp
  have h: "hd (map g batch) = g (hd batch)" using ne by (simp add: hd_map)
  have 2: "\<forall>x \<in> set (map g batch). length x = length (hd (map g batch))"
  proof
    fix x
    assume "x \<in> set (map g batch)"
    then obtain y where y: "y \<in> set batch" "x = g y" by auto
    show "length x = length (hd (map g batch))"
      unfolding h y(2) by (rule F [rule_format, OF y(1)])
  qed
  have 3: "\<forall>x \<in> set (map g batch). \<forall>row \<in> set x. length row = size1 x"
    using rect by auto
  have img: "size1 ` set (map g batch) = (\<lambda>x. size1 (g x)) ` set batch"
    by (simp only: set_map image_image)
  show ?thesis
    unfolding pad_spectrograms_right_pad [OF 1 2 3] img by (simp add: o_def)
qed

lemma pad_tokens_map:
  assumes "batch \<noteq> []"
  shows "pad_tokens (map g batch)
         = Inr (map (\<lambda>x. right_pad (Max ((\<lambda>x. length (g x)) ` set batch)) 0 (g x)) batch)"
proof -
  have 1: "map g batch \<noteq> []" using assms by simp
  have img: "length ` set (map g batch) = (\<lambda>x. length (g x)) ` set batch"
    by (simp only: set_map image_image)
  show ?thesis
    unfolding pad_tokens_def pad_sequence_right_pad [OF 1] img using 1 by (simp add: o_def)
qed

text \<open>
  Claim C8. Take a non-empty batch of feature pairs: source and target spectrograms are
  rectangular, have the same number of frequency bins throughout the batch, and a
  sample's target has as many frames as its source. Then \<open>TextCollate\<close> and
  \<open>AudioCollate\<close> return; each family (token rows, sources, targets) is padded on the
  right with zeros to its own batch maximum, sample by sample in the order of the input;
  the length vectors hold the lengths before padding; and trimming every padded output
  to its recorded length gives back the input.
\<close>

theorem collate_pads_and_round_trips:
  fixes batch :: "(int list \<times> mat \<times> mat) list"
  assumes ne: "batch \<noteq> []"
      and F_src: "\<forall>x \<in> set batch. length (fst (snd x)) = length (fst (snd (hd batch)))"
      and F_tgt: "\<forall>x \<in> set batch. length (snd (snd x)) = length (snd (snd (hd batch)))"
      and rect_src: "\<forall>x \<in> set batch. \<forall>row \<in> set (fst (snd x)). length row = size1 (fst (snd x))"
      and rect_tgt: "\<forall>x \<in> set batch. \<forall>row \<in> set (snd (snd x)). length row = size1 (snd (snd x))"
      and aligned: "\<forall>x \<in> set batch. size1 (snd (snd x)) = size1 (fst (snd x))"
  shows "\<exists>seq_padded text_lengths source_padded target_padded audio_lengths.
           TextCollate_call batch
             = Inr (seq_padded, text_lengths, source_padded, target_padded, audio_lengths)
         \<and> AudioCollate_call (map snd batch) = Inr (source_padded, target_padded, audio_lengths)
         \<and> seq_padded
             = map (\<lambda>x. right_pad (Max ((\<lambda>x. length (fst x)) ` set batch)) 0 (fst x)) batch
         \<and> source_padded
             = map (\<lambda>x. map (right_pad (Max ((\<lambda>x. size1 (fst (snd x))) ` set batch)) 0)
                             (fst (snd x))) batch
         \<and> target_padded
             = map (\<lambda>x. map (right_pad (Max ((\<lambda>x. size1 (snd (snd x))) ` set batch)) 0)
                             (snd (snd x))) batch
         \<and> text_lengths = map (\<lambda>x. int (length (fst x))) batch
         \<and> audio_lengths = map (\<lambda>x. int (size1 (fst (snd x)))) batch
         \<and> map (\<lambda>(p, n). trim_tokens p n) (zip seq_padded text_lengths) = map fst batch
         \<and> map (\<lambda>(p, n). trim_spectrogram p n) (zip source_padded audio_lengths)
             = map (\<lambda>x. fst (snd x)) batch
         \<and> map (\<lambda>(p, n). trim_spectrogram p n) (zip target_padded audio_lengths)
             = map (\<lambda>x. snd (snd x)) batch"
proof -
  let ?L = "Max ((\<lambda>x. length (fst x)) ` set batch)"
  let ?Ts = "Max ((\<lambda>x. size1 (fst (snd x))) ` set batch)"
  let ?Tt = "Max ((\<lambda>x. size1 (snd (snd x))) ` set batch)"
  have tok: "pad_tokens (map (\<lambda>x. fst x) batch)
             = Inr (map (\<lambda>x. right_pad ?L 0 (fst x)) batch)"
    by (rule pad_tokens_map [OF ne])
  have src: "pad_spectrograms (map (\<lambda>x. fst (snd x)) batch)
             = Inr (map (\<lambda>x. map (right_pad ?Ts 0) (fst (snd x))) batch)"
    by (rule pad_spectrograms_map [OF ne F_src rect_src])
  have tgt: "pad_spectrograms (map (\<lambda>x. snd (snd x)) batch)
             = Inr (map (\<lambda>x. map (right_pad ?Tt 0) (snd (snd x))) batch)"
    by (rule pad_spectrograms_map [OF ne F_tgt rect_tgt])
  have text_call: "TextCollate_call batch
      = Inr (map (\<lambda>x. right_pad ?L 0 (fst x)) batch,
             map (\<lambda>x. int (length (fst x))) batch,
             map (\<lambda>x. map (right_pad ?Ts 0) (fst (snd x))) batch,
             map (\<lambda>x. map (right_pad ?Tt 0) (snd (snd x))) batch,
             map (\<lambda>x. int (size1 (fst (snd x)))) batch)"
    by (simp add: TextCollate_call_def Let_def tok src tgt o_def)
  have audio_call: "AudioCollate_call (map snd batch)
      = Inr (map (\<lambda>x. map (right_pad ?Ts 0) (fst (snd x))) batch,
             map (\<lambda>x. map (right_pad ?Tt 0) (snd (snd x))) batch,
             map (\<lambda>x. int (size1 (fst (snd x)))) batch)"
    using src tgt by (simp add: AudioCollate_call_def Let_def o_def)
  have rt_tok: "map (\<lambda>(p, n). trim_tokens p n)
                  (zip (map (\<lambda>x. right_pad ?L 0 (fst x)) batch)
                       (map (\<lambda>x. int (length (fst x))) batch)) = map fst batch"
    by (simp add: zip2_map trim_tokens_def trim_right_pad)
  have rt_src: "map (\<lambda>(p, n). trim_spectrogram p n)
                  (zip (map (\<lambda>x. map (right_pad ?Ts 0) (fst (snd x))) batch)
                       (map (\<lambda>x. int (size1 (fst (snd x)))) batch))
                = map (\<lambda>x. fst (snd x)) batch"
  proof -
    have "map (take (size1 (fst (snd x)))) (map (right_pad ?Ts 0) (fst (snd x))) = fst (snd x)"
      if "x \<in> set batch" for x
      using rect_src that by (intro trim_rows) blast
    then show ?thesis
      by (simp add: zip2_map trim_spectrogram_def)
  qed
  have rt_tgt: "map (\<lambda>(p, n). trim_spectrogram p n)
                  (zip (map (\<lambda>x. map (right_pad ?Tt 0) (snd (snd x))) batch)
                       (map (\<lambda>x. int (size1 (fst (snd x)))) batch))
                = map (\<lambda>x. snd (snd x)) batch"
  proof -
    have "map (take (size1 (fst (snd x)))) (map (right_pad ?Tt 0) (snd (snd x))) = snd (snd x)"
      if x: "x \<in> set batch" for x
    proof -
      have "\<forall>row \<in> set (snd (snd x)). length row = size1 (fst (snd x))"
        using rect_tgt aligned x by auto
      then show ?thesis by (rule trim_rows)
    qed
    then show ?thesis
      by (simp add: zip2_map trim_spectrogram_def)
  qed
  show ?thesis
    unfolding text_call audio_call using rt_tok rt_src rt_tgt by simp
qed

theorem collate_pads_and_round_trips_witness:
  "TextCollate_call example_batch
     = Inr ([[1, 2, 3], [4, 0, 0]], [3, 1],
            [[[1, 2], [3, 4]], [[9, 0], [10, 0]]],
            [[[5, 6], [7, 8]], [[11, 0], [12, 0]]], [2, 1])
   \<and> AudioCollate_call (map snd example_batch)
     = Inr ([[[1, 2], [3, 4]], [[9, 0], [10, 0]]],
            [[[5, 6], [7, 8]], [[11, 0], [12, 0]]], [2, 1])
   \<and> map (\<lambda>(p, n). trim_spectrogram p n)
         (zip [[[5, 6], [7, 8]], [[11, 0], [12, 0]]] [2, 1])
     = map (\<lambda>x. snd (snd x)) example_batch"
proof -
  have ne: "example_batch \<noteq> []"
    by (simp add: example_batch_def)
  have F_src: "\<forall>x \<in> set example_batch. length (fst (snd x)) = length (fst (snd (hd example_batch)))"
    and F_tgt: "\<forall>x \<in> set example_batch. length (snd (snd x)) = length (snd (snd (hd example_batch)))"
    and rect_src: "\<forall>x \<in> set example_batch. \<forall>row \<in> set (fst (snd x)). length row = size1 (fst (snd x))"
    and rect_tgt: "\<forall>x \<in> set example_batch. \<forall>row \<in> set (snd (snd x)). length row = size1 (snd (snd x))"
    and aligned: "\<forall>x \<in> set example_batch. size1 (snd (snd x)) = size1 (fst (snd x))"
    by (simp_all add: example_batch_def size1_def)
  have m: "Max ((\<lambda>x. length (fst x)) ` set example_batch) = 3"
          "Max ((\<lambda>x. size1 (fst (snd x))) ` set example_batch) = 2"
          "Max ((\<lambda>x. size1 (snd (snd x))) ` set example_batch) = 2"
    by (simp_all add: example_batch_def size1_def)
  have pads: "map (\<lambda>x. right_pad 3 0 (fst x)) example_batch = [[1, 2, 3], [4, 0, 0]]"
    "map (\<lambda>x. map (right_pad 2 0) (fst (snd x))) example_batch
       = [[[1, 2], [3, 4]], [[9, 0], [10, 0]]]"
    "map (\<lambda>x. map (right_pad 2 0) (snd (snd x))) example_batch
       = [[[5, 6], [7, 8]], [[11, 0], [12, 0]]]"
    "map (\<lambda>x. int (length (fst x))) example_batch = [3, 1]"
    "map (\<lambda>x. int (size1 (fst (snd x)))) example_batch = [2, 1]"
    by (simp_all add: example_batch_def right_pad_def size1_def numeral_2_eq_2 numeral_3_eq_3)
  show ?thesis
    using collate_pads_and_round_trips [OF ne F_src F_tgt rect_src rect_tgt aligned]
    unfolding m pads by auto
qed

subsection \<open>Datasets\<close>

lemma shuffle_from_set:
  assumes "i < length xs"
  shows "set (shuffle_from rb c i xs) = set xs"
  using assms
proof (induction i arbitrary: c xs)
  case 0
  show ?case by simp
next
  case (Suc i)
  let ?j = "rb c (Suc (Suc i)) mod Suc (Suc i)"
  let ?ys = "xs[Suc i := xs ! ?j, ?j := xs ! Suc i]"
  have j: "?j < length xs"
    using Suc.prems by (meson less_trans_Suc mod_less_divisor not_less_eq zero_less_Suc less_Suc_eq_le le_less_trans)
  have "set ?ys = set xs"
    using Suc.prems j by (simp add: set_swap)
  moreover have "i < length ?ys"
    using Suc.prems by simp
  ultimately show ?case
    using Suc.IH [of ?ys "Suc c"] by (simp add: Let_def)
qed

lemma shuffle_set: "set (shuffle rb xs) = set xs"
proof (cases xs)
  case Nil
  then show ?thesis by (simp add: shuffle_def)
next
  case (Cons x rest)
  then have "length xs - 1 < length xs" by simp
  then show ?thesis
    unfolding shuffle_def by (rule shuffle_from_set)
qed

lemma split_95_subset: "set (split_95 train xs) \<subseteq> set xs"
  by (auto simp: split_95_def Let_def dest: in_set_takeD in_set_dropD)

lemma split_95_cover: "set (split_95 True xs) \<union> set (split_95 False xs) = set xs"
proof -
  have "set (take k xs) \<union> set (drop k xs) = set xs" for k
    by (metis append_take_drop_id set_append)
  then show ?thesis by (simp add: split_95_def Let_def)
qed

lemma kss_lines_set:
  assumes "kss_lines hparams env lines acc = Inr ds" "e \<in> set ds"
  shows "e \<in> set acc
         \<or> (\<exists>line \<in> set lines. \<exists>d. kss_sample hparams env line = Some (e, d)
                \<and> d < audio_duration hparams)"
  using assms
proof (induction lines arbitrary: acc)
  case Nil
  then show ?case by simp
next
  case (Cons line rest)
  from Cons.prems(1) obtain s d where
    s: "kss_sample hparams env line = Some (s, d)"
    and rest: "kss_lines hparams env rest
                 (if d < audio_duration hparams then acc @ [s] else acc) = Inr ds"
    by (auto simp: kss_sample_def Let_def split: list.splits option.splits)
  from Cons.IH [OF rest Cons.prems(2)] show ?case
  proof
    assume "e \<in> set (if d < audio_duration hparams then acc @ [s] else acc)"
    then show ?thesis using s by (auto split: if_splits)
  next
    assume "\<exists>line \<in> set rest. \<exists>d. kss_sample hparams env line = Some (e, d)
              \<and> d < audio_duration hparams"
    then show ?thesis by auto
  qed
qed

lemma blizzard_lines_set:
  assumes "e \<in> set (blizzard_lines hparams env lines)"
  shows "get_length env (fst e) (audio_sr hparams) < audio_duration hparams"
  using assms by (auto simp: blizzard_lines_def Let_def)

lemma example_split:
  "split_on CHR ''|'' ''a.wav|x|y|hello|3.5|z'' = [''a.wav'', ''x'', ''y'', ''hello'', ''3.5'', ''z'']"
  "split_on CHR ''|'' ''b.wav|x|y|long|12.0|z'' = [''b.wav'', ''x'', ''y'', ''long'', ''12.0'', ''z'']"
  by simp_all

lemma example_kss_sample:
  "kss_sample example_hp example_env ''a.wav|x|y|hello|3.5|z''
   = Some ((''data/kss/a.wav'', ''hello''), 7 / 2)"
  unfolding kss_sample_def example_split
  by (simp add: example_env_def example_hp_def os_path_join_def join2_def)

lemma example_kss_lines:
  "kss_lines example_hp example_env
     [''a.wav|x|y|hello|3.5|z'', ''b.wav|x|y|long|12.0|z''] []
   = Inr [(''data/kss/a.wav'', ''hello'')]"
  unfolding kss_lines.simps example_split
  by (simp add: example_env_def example_hp_def os_path_join_def join2_def)

lemma example_AudioTextDataset:
  "\<exists>ds. AudioTextDataset_init example_hp example_args False example_env = Inr ds
        \<and> dataset ds = [(''data/kss/a.wav'', ''hello'')]"
proof -
  have n: "data_name example_hp = ''KSS''"
    by (simp add: example_hp_def)
  have rd: "read_lines example_env p
            = Some [''a.wav|x|y|hello|3.5|z'', ''b.wav|x|y|long|12.0|z'']" for p
    by (simp add: example_env_def)
  show ?thesis
    unfolding AudioTextDataset_init_def n rd
    by (simp add: example_kss_lines AudioTextDataset_finish_def shuffle_def split_95_def
             del: kss_lines.simps)
qed

lemma example_AudioOnlyDataset:
  "file_list (AudioOnlyDataset_init example_hp example_args False example_env) = [''a.wav'']"
  by (simp add: AudioOnlyDataset_init_def Let_def example_env_def shuffle_def split_95_def)

text \<open>
  Claim C9, as the code has it. Every sample that the audio-text dataset enumerates
  has a duration strictly below \<open>hp.audio.duration\<close>: for KSS the duration that its
  transcript line gives, for Blizzard the one that \<open>get_length\<close> returns. The
  audio-only dataset looks at no duration: its training and validation lists together
  hold every file that \<open>glob\<close> finds.
\<close>

theorem dataset_duration_filter:
  assumes "AudioTextDataset_init hparams a train env = Inr ds"
  shows "((data_name hparams = ''KSS''
            \<and> (\<exists>lines. read_lines env
                           (os_path_join (data_path hparams) [''transcript.v.1.3.txt''])
                         = Some lines
                  \<and> (\<forall>e \<in> set (dataset ds). \<exists>line \<in> set lines. \<exists>d.
                         kss_sample hparams env line = Some (e, d)
                         \<and> d < audio_duration hparams)))
          \<or> (data_name hparams = ''Blizzard''
            \<and> (\<forall>e \<in> set (dataset ds).
                   get_length env (fst e) (audio_sr hparams) < audio_duration hparams)))
         \<and> set (file_list (AudioOnlyDataset_init hparams a True env))
             \<union> set (file_list (AudioOnlyDataset_init hparams a False env))
           = set (glob_glob env (os_path_join (data_path hparams) [''**'', data_extension hparams]))"
proof -
  have sub: "set (dataset (AudioTextDataset_finish hparams a train env ds0)) \<subseteq> set ds0" for ds0
    using split_95_subset [of train "shuffle (randbelow env) ds0"]
    by (simp add: AudioTextDataset_finish_def shuffle_set)
  have audio: "set (file_list (AudioOnlyDataset_init hparams a True env))
                 \<union> set (file_list (AudioOnlyDataset_init hparams a False env))
               = set (glob_glob env (os_path_join (data_path hparams)
                                        [''**'', data_extension hparams]))"
    by (simp add: AudioOnlyDataset_init_def Let_def split_95_cover shuffle_set)
  consider (kss) "data_name hparams = ''KSS''"
    | (blizzard) "data_name hparams \<noteq> ''KSS''" "data_name hparams = ''Blizzard''"
    using assms by (auto simp: AudioTextDataset_init_def split: if_splits)
  then have "(data_name hparams = ''KSS''
            \<and> (\<exists>lines. read_lines env
                           (os_path_join (data_path hparams) [''transcript.v.1.3.txt''])
                         = Some lines
                  \<and> (\<forall>e \<in> set (dataset ds). \<exists>line \<in> set lines. \<exists>d.
                         kss_sample hparams env line = Some (e, d)
                         \<and> d < audio_duration hparams)))
          \<or> (data_name hparams = ''Blizzard''
            \<and> (\<forall>e \<in> set (dataset ds).
                   get_length env (fst e) (audio_sr hparams) < audio_duration hparams))"
  proof cases
    case kss
    from assms kss obtain lines ds0 where
      rd: "read_lines env (os_path_join (data_path hparams) [''transcript.v.1.3.txt''])
             = Some lines"
      and k: "kss_lines hparams env lines [] = Inr ds0"
      and ds: "ds = AudioTextDataset_finish hparams a train env ds0"
      by (auto simp: AudioTextDataset_init_def split: option.splits sum.splits)
    have "\<exists>line \<in> set lines. \<exists>d. kss_sample hparams env line = Some (e, d)
            \<and> d < audio_duration hparams" if "e \<in> set (dataset ds)" for e
    proof -
      have "e \<in> set ds0" using that sub [of ds0] ds by auto
      then show ?thesis using kss_lines_set [OF k] by auto
    qed
    then show ?thesis using kss rd by blast
  next
    case blizzard
    from assms blizzard obtain lines where
      ds: "ds = AudioTextDataset_finish hparams a train env (blizzard_lines hparams env lines)"
      by (auto simp: AudioTextDataset_init_def split: option.splits)
    have "get_length env (fst e) (audio_sr hparams) < audio_duration hparams"
      if "e \<in> set (dataset ds)" for e
    proof -
      have "e \<in> set (blizzard_lines hparams env lines)"
        using that sub [of "blizzard_lines hparams env lines"] ds by auto
      then show ?thesis by (rule blizzard_lines_set)
    qed
    then show ?thesis using blizzard by blast
  qed
  then show ?thesis using audio by blast
qed

theorem dataset_duration_filter_witness:
  "\<exists>ds. AudioTextDataset_init example_hp example_args False example_env = Inr ds
        \<and> dataset ds = [(''data/kss/a.wav'', ''hello'')]
        \<and> (\<exists>line d. kss_sample example_hp example_env line
                        = Some ((''data/kss/a.wav'', ''hello''), d)
                      \<and> d < audio_duration example_hp)"
proof -
  obtain ds where
    ds: "AudioTextDataset_init example_hp example_args False example_env = Inr ds"
    and d: "dataset ds = [(''data/kss/a.wav'', ''hello'')]"
    using example_AudioTextDataset by blast
  have "data_name example_hp \<noteq> ''Blizzard''"
    by (simp add: example_hp_def)
  then have "\<exists>line d. kss_sample example_hp example_env line
                        = Some ((''data/kss/a.wav'', ''hello''), d)
                      \<and> d < audio_duration example_hp"
    using dataset_duration_filter [OF ds] by (auto simp: d)
  then show ?thesis using ds d by blast
qed

text \<open>
  The validation list of the audio-only dataset over one file of 20 seconds, with a
  maximum duration of 10 seconds, holds that file.
\<close>

theorem audio_only_filter_counterexample:
  "file_list (AudioOnlyDataset_init example_hp example_args False example_env) = [''a.wav'']
   \<and> \<not> get_length example_env ''a.wav'' (audio_sr example_hp) < audio_duration example_hp"
  by (simp add: example_AudioOnlyDataset, simp add: example_env_def example_hp_def)

end
